theory Spec2Isabelle
  imports Complex_Main
begin

section \<open>Python values, exceptions and name lookup\<close>

text \<open>
  The scripts pass conversation turns around as Python dicts with string keys. A turn is
  modelled as a map from key to value; a key that is absent is \<open>None\<close> of the map, a key
  that is present with the Python value \<open>None\<close> is \<open>Some PyNone\<close>. The values stored under
  the keys are \<open>None\<close>, a string, or a list of tool calls. A tool call is either the
  object the SDK returns (attributes \<open>id\<close>, \<open>type\<close>, \<open>function.name\<close>,
  \<open>function.arguments\<close>) or the wire dict
  \<open>{"id": .., "type": .., "function": {"name": .., "arguments": ..}}\<close>.
\<close>

record sdk_tool_call =
  tc_id :: string
  tc_type :: string
  tc_function_name :: string
  tc_function_arguments :: string

datatype tool_call =
    ToolCallObj sdk_tool_call
  | ToolCallDict string string string string

datatype pyval = PyNone | PyStr string | PyToolCalls "tool_call list"

type_synonym message = "string \<rightharpoonup> pyval"

text \<open>
  Exception classes: the builtins the code can meet and the part of the SDK's hierarchy
  the handlers name (\<open>RateLimitError < APIStatusError < APIError < GroqError < Exception\<close>,
  \<open>APIConnectionError < APIError\<close>, \<open>JSONDecodeError < ValueError\<close>). An exception value
  carries its class and the text \<open>str(e)\<close> gives. Every class here derives from
  \<open>Exception\<close>; \<open>KeyboardInterrupt\<close> and \<open>SystemExit\<close> are outside the model.
\<close>

datatype py_class =
    Exception | GroqError | APIError | APIStatusError | APIConnectionError
  | RateLimitError | KeyError | IndexError | AttributeError | TypeError | NameError
  | ValueError | JSONDecodeError | RuntimeError

datatype exn = Exn py_class string

fun exn_class :: "exn \<Rightarrow> py_class" where
  "exn_class (Exn c s) = c"

fun str_exn :: "exn \<Rightarrow> string" where
  "str_exn (Exn c s) = s"

fun mro :: "py_class \<Rightarrow> py_class list" where
  "mro Exception = [Exception]"
| "mro GroqError = [GroqError, Exception]"
| "mro APIError = [APIError, GroqError, Exception]"
| "mro APIStatusError = [APIStatusError, APIError, GroqError, Exception]"
| "mro APIConnectionError = [APIConnectionError, APIError, GroqError, Exception]"
| "mro RateLimitError = [RateLimitError, APIStatusError, APIError, GroqError, Exception]"
| "mro JSONDecodeError = [JSONDecodeError, ValueError, Exception]"
| "mro c = [c, Exception]"

definition isinstance :: "exn \<Rightarrow> py_class \<Rightarrow> bool" where
  "isinstance e c = (c \<in> set (mro (exn_class e)))"

text \<open>
  A name in an \<open>except\<close> clause is looked up when the clause is reached: first in the
  module's globals, then in the builtins; a name bound in neither raises \<open>NameError\<close>.
  Only the names of exception classes matter here.
\<close>

type_synonym namespace = "string \<rightharpoonup> py_class"

definition apostrophe :: string where
  "apostrophe = [CHR 0x27]"

definition builtins :: namespace where
  "builtins = [''Exception'' \<mapsto> Exception, ''KeyError'' \<mapsto> KeyError,
     ''IndexError'' \<mapsto> IndexError, ''AttributeError'' \<mapsto> AttributeError,
     ''TypeError'' \<mapsto> TypeError, ''NameError'' \<mapsto> NameError,
     ''ValueError'' \<mapsto> ValueError, ''RuntimeError'' \<mapsto> RuntimeError]"

definition lookup_name :: "namespace \<Rightarrow> string \<Rightarrow> exn + py_class" where
  "lookup_name globals n =
     (case globals n of
        Some c \<Rightarrow> Inr c
      | None \<Rightarrow>
          (case builtins n of
             Some c \<Rightarrow> Inr c
           | None \<Rightarrow> Inl (Exn NameError (''name '' @ apostrophe @ n @ apostrophe @ '' is not defined''))))"

text \<open>
  The chain of \<open>except\<close> clauses of a \<open>try\<close> statement, tried in order on the exception
  \<open>e\<close>: \<open>None\<close> when a clause catches it, \<open>Some e'\<close> when \<open>e'\<close> leaves the statement
  (\<open>e\<close> itself when no clause matches, the \<open>NameError\<close> when a clause's name is unbound).
\<close>

fun except_clauses :: "namespace \<Rightarrow> string list \<Rightarrow> exn \<Rightarrow> exn option" where
  "except_clauses globals [] e = Some e"
| "except_clauses globals (n # ns) e =
     (case lookup_name globals n of
        Inl name_error \<Rightarrow> Some name_error
      | Inr c \<Rightarrow> if isinstance e c then None else except_clauses globals ns e)"

text \<open>
  What \<open>from groq import ...\<close> binds in each module. \<open>chat_history.py\<close>,
  \<open>function_calling.py\<close>, \<open>evaluation.py\<close> and \<open>llm.py\<close> import \<open>Groq, APIError\<close>;
  \<open>groq.py\<close> imports \<open>Groq, APIError, RateLimitError\<close>.
\<close>

definition chat_history_globals :: namespace where
  "chat_history_globals = [''APIError'' \<mapsto> APIError]"

definition function_calling_globals :: namespace where
  "function_calling_globals = [''APIError'' \<mapsto> APIError]"

definition evaluation_globals :: namespace where
  "evaluation_globals = [''APIError'' \<mapsto> APIError]"

definition llm_globals :: namespace where
  "llm_globals = [''APIError'' \<mapsto> APIError]"

definition groq_globals :: namespace where
  "groq_globals = [''APIError'' \<mapsto> APIError, ''RateLimitError'' \<mapsto> RateLimitError]"

definition api_handlers :: "string list" where
  "api_handlers = [''APIError'', ''RateLimitError'', ''Exception'']"

section \<open>The message normalizer\<close>

definition py_get :: "message \<Rightarrow> string \<Rightarrow> pyval" where
  "py_get msg k = (case msg k of None \<Rightarrow> PyNone | Some v \<Rightarrow> v)"

definition key_error :: "string \<Rightarrow> exn" where
  "key_error k = Exn KeyError (apostrophe @ k @ apostrophe)"

text \<open>
  \<open>filter_messages_for_api\<close> of \<open>chat_history.py\<close>, one turn of its loop. \<open>msg["role"]\<close>
  and \<open>msg["content"]\<close> raise \<open>KeyError\<close> on an absent key; \<open>msg.get("content")\<close> gives
  \<open>None\<close> there.
\<close>

definition filter_message_ch :: "message \<Rightarrow> exn + message" where
  "filter_message_ch msg =
     (case msg ''role'' of
        None \<Rightarrow> Inl (key_error ''role'')
      | Some role \<Rightarrow>
          let api_msg = [''role'' \<mapsto> role, ''content'' \<mapsto> py_get msg ''content''];
              api_msg = (if ''tool_calls'' \<in> dom msg \<and> msg ''tool_calls'' \<noteq> Some PyNone
                         then api_msg(''tool_calls'' \<mapsto> the (msg ''tool_calls''))
                         else api_msg)
          in
          (case (if ''tool_call_id'' \<in> dom msg \<and> msg ''tool_call_id'' \<noteq> Some PyNone
                 then (case msg ''content'' of
                         None \<Rightarrow> Inl (key_error ''content'')
                       | Some c \<Rightarrow>
                           Inr (api_msg(''tool_call_id'' \<mapsto> the (msg ''tool_call_id''),
                                        ''content'' \<mapsto> c)))
                 else if py_get msg ''content'' = PyNone \<and> ''tool_calls'' \<notin> dom msg
                 then (if role = PyStr ''assistant''
                       then Inr (api_msg(''content'' \<mapsto> PyNone))
                       else Inr api_msg)
                 else Inr api_msg) of
             Inl e \<Rightarrow> Inl e
           | Inr api_msg \<Rightarrow>
               Inr (if role \<noteq> PyStr ''assistant'' \<and> py_get api_msg ''content'' = PyNone
                       \<and> ''tool_calls'' \<notin> dom api_msg
                    then api_msg(''content'' \<mapsto> PyStr '''')
                    else api_msg)))"

text \<open>The loop: \<open>api_messages\<close> grows by one record per turn; the first raise ends it.\<close>

fun filter_loop_ch :: "message list \<Rightarrow> message list \<Rightarrow> exn + message list" where
  "filter_loop_ch api_messages [] = Inr api_messages"
| "filter_loop_ch api_messages (msg # messages) =
     (case filter_message_ch msg of
        Inl e \<Rightarrow> Inl e
      | Inr api_msg \<Rightarrow> filter_loop_ch (api_messages @ [api_msg]) messages)"

definition filter_messages_for_api_ch :: "message list \<Rightarrow> exn + message list" where
  "filter_messages_for_api_ch messages = filter_loop_ch [] messages"

text \<open>
  \<open>filter_messages_for_api\<close> of \<open>function_calling.py\<close>. Its list comprehension reads
  \<open>tc.id\<close>, \<open>tc.type\<close>, \<open>tc.function.name\<close> and \<open>tc.function.arguments\<close> of every
  element of \<open>msg["tool_calls"]\<close>: attributes an SDK object has and a dict or a
  character of a string has not. Iterating the empty string gives the empty list.
\<close>

definition attribute_error :: "string \<Rightarrow> string \<Rightarrow> exn" where
  "attribute_error ty a =
     Exn AttributeError (apostrophe @ ty @ apostrophe @ '' object has no attribute ''
       @ apostrophe @ a @ apostrophe)"

fun reshape_tool_call_list :: "tool_call list \<Rightarrow> exn + tool_call list" where
  "reshape_tool_call_list [] = Inr []"
| "reshape_tool_call_list (ToolCallObj tc # tcs) =
     (case reshape_tool_call_list tcs of
        Inl e \<Rightarrow> Inl e
      | Inr ds \<Rightarrow>
          Inr (ToolCallDict (tc_id tc) (tc_type tc) (tc_function_name tc)
                 (tc_function_arguments tc) # ds))"
| "reshape_tool_call_list (ToolCallDict i t n a # tcs) = Inl (attribute_error ''dict'' ''id'')"

fun reshape_tool_calls :: "pyval \<Rightarrow> exn + pyval" where
  "reshape_tool_calls (PyToolCalls tcs) =
     (case reshape_tool_call_list tcs of Inl e \<Rightarrow> Inl e | Inr ds \<Rightarrow> Inr (PyToolCalls ds))"
| "reshape_tool_calls (PyStr s) =
     (if s = [] then Inr (PyToolCalls []) else Inl (attribute_error ''str'' ''id''))"
| "reshape_tool_calls PyNone = Inl (Exn TypeError ''NoneType object is not iterable'')"

definition filter_message_fc :: "message \<Rightarrow> exn + message" where
  "filter_message_fc msg =
     (case msg ''role'' of
        None \<Rightarrow> Inl (key_error ''role'')
      | Some role \<Rightarrow>
          let api_msg = [''role'' \<mapsto> role];
              api_msg = (if ''content'' \<in> dom msg \<and> msg ''content'' \<noteq> Some PyNone
                         then api_msg(''content'' \<mapsto> the (msg ''content''))
                         else api_msg)
          in
          (case (if ''tool_calls'' \<in> dom msg \<and> msg ''tool_calls'' \<noteq> Some PyNone
                 then (case reshape_tool_calls (the (msg ''tool_calls'')) of
                         Inl e \<Rightarrow> Inl e
                       | Inr tcs \<Rightarrow> Inr (api_msg(''tool_calls'' \<mapsto> tcs)))
                 else Inr api_msg) of
             Inl e \<Rightarrow> Inl e
           | Inr api_msg \<Rightarrow>
               (case (if role = PyStr ''tool''
                      then (case msg ''tool_call_id'' of
                              None \<Rightarrow> Inl (key_error ''tool_call_id'')
                            | Some i \<Rightarrow>
                                (case msg ''name'' of
                                   None \<Rightarrow> Inl (key_error ''name'')
                                 | Some n \<Rightarrow>
                                     Inr (api_msg(''tool_call_id'' \<mapsto> i, ''name'' \<mapsto> n))))
                      else Inr api_msg) of
                  Inl e \<Rightarrow> Inl e
                | Inr api_msg \<Rightarrow>
                    Inr (if role \<noteq> PyStr ''assistant'' \<and> py_get api_msg ''content'' = PyNone
                            \<and> ''tool_calls'' \<notin> dom api_msg \<and> role \<noteq> PyStr ''tool''
                         then api_msg(''content'' \<mapsto> PyStr '''')
                         else if role = PyStr ''assistant'' \<and> ''tool_calls'' \<in> dom msg
                            \<and> py_get msg ''content'' = PyNone
                         then api_msg(''content'' \<mapsto> PyNone)
                         else api_msg))))"

fun filter_loop_fc :: "message list \<Rightarrow> message list \<Rightarrow> exn + message list" where
  "filter_loop_fc api_messages [] = Inr api_messages"
| "filter_loop_fc api_messages (msg # messages) =
     (case filter_message_fc msg of
        Inl e \<Rightarrow> Inl e
      | Inr api_msg \<Rightarrow> filter_loop_fc (api_messages @ [api_msg]) messages)"

definition filter_messages_for_api_fc :: "message list \<Rightarrow> exn + message list" where
  "filter_messages_for_api_fc messages = filter_loop_fc [] messages"

section \<open>The remote API\<close>

text \<open>
  A request holds the keyword arguments of \<open>client.chat.completions.create\<close>; an
  argument a call site does not pass is \<open>None\<close>. A completion holds the list of
  choices, each with the message's \<open>content\<close> (nullable) and \<open>tool_calls\<close> (nullable).
  The client is the remote endpoint seen from the scripts: a request either raises or
  returns a completion. A driver returns, besides its own result, the final state of the
  list it was given (it appends to it in place) and the requests it sent, in order.
\<close>

record tool_schema =
  ts_type :: string
  ts_name :: string
  ts_description :: string
  ts_parameters_type :: string
  ts_parameters_properties :: "string list"
  ts_parameters_required :: "string list"

record request =
  messages :: "message list"
  model :: string
  tools :: "tool_schema list option"
  tool_choice :: "string option"
  temperature :: rat
  max_tokens :: nat
  top_p :: "nat option"
  stream :: "bool option"

record sdk_message =
  content :: "string option"
  tool_calls :: "sdk_tool_call list option"

record completion =
  choices :: "sdk_message list"

type_synonym client = "request \<Rightarrow> exn + completion"

datatype 'a outcome = Returned 'a | Raised exn

definition DEFAULT_MODEL :: string where
  "DEFAULT_MODEL = ''llama3-8b-8192''"

definition EVALUATION_MODEL :: string where
  "EVALUATION_MODEL = ''llama3-8b-8192''"

definition opt_str :: "string option \<Rightarrow> pyval" where
  "opt_str c = (case c of None \<Rightarrow> PyNone | Some s \<Rightarrow> PyStr s)"

text \<open>\<open>chat_completion.choices[0].message\<close>: \<open>IndexError\<close> on an empty list of choices.\<close>

definition first_choice :: "completion \<Rightarrow> exn + sdk_message" where
  "first_choice chat_completion =
     (case choices chat_completion of
        [] \<Rightarrow> Inl (Exn IndexError ''list index out of range'')
      | m # _ \<Rightarrow> Inr m)"

section \<open>The conversation driver\<close>

definition user_turn :: "string \<Rightarrow> message" where
  "user_turn new_user_query = [''role'' \<mapsto> PyStr ''user'', ''content'' \<mapsto> PyStr new_user_query]"

definition assistant_turn :: "string option \<Rightarrow> message" where
  "assistant_turn assistant_response =
     [''role'' \<mapsto> PyStr ''assistant'', ''content'' \<mapsto> opt_str assistant_response]"

definition chat_request :: "message list \<Rightarrow> string \<Rightarrow> request" where
  "chat_request api_ready_messages m =
     \<lparr>messages = api_ready_messages, model = m, tools = None, tool_choice = None,
      temperature = 7 / 10, max_tokens = 1024, top_p = Some 1, stream = Some False\<rparr>"

definition chat_with_history ::
  "client option \<Rightarrow> message list \<Rightarrow> string \<Rightarrow> string
     \<Rightarrow> string option outcome \<times> message list \<times> request list" where
  "chat_with_history client conversation_history new_user_query m =
     (case client of
        None \<Rightarrow> (Returned None, conversation_history, [])
      | Some create \<Rightarrow>
          let h1 = conversation_history @ [user_turn new_user_query] in
          (case filter_messages_for_api_ch h1 of
             Inl e \<Rightarrow> (Raised e, h1, [])
           | Inr api_ready_messages \<Rightarrow>
               let req = chat_request api_ready_messages m in
               (case (case create req of
                        Inl e \<Rightarrow> Inl e
                      | Inr chat_completion \<Rightarrow>
                          (case first_choice chat_completion of
                             Inl e \<Rightarrow> Inl e
                           | Inr message \<Rightarrow> Inr (content message))) of
                  Inr assistant_response \<Rightarrow>
                    (Returned assistant_response, h1 @ [assistant_turn assistant_response], [req])
                | Inl e \<Rightarrow>
                    (case except_clauses chat_history_globals api_handlers e of
                       None \<Rightarrow> (Returned None, h1, [req])
                     | Some e' \<Rightarrow> (Raised e', h1, [req])))))"

section \<open>The tool-calling driver\<close>

text \<open>
  A registered function takes no argument; what a call of it gives (a string, or an
  exception) is the environment's, here a function of the number of tool calls already
  served in this turn. \<open>get_current_datetime\<close> reads the clock.
\<close>

type_synonym tool_fn = "nat \<Rightarrow> exn + string"

definition TOOLS_SCHEMA :: "tool_schema list" where
  "TOOLS_SCHEMA =
     [\<lparr>ts_type = ''function'', ts_name = ''get_current_datetime'',
       ts_description = ''Get the current date and time. Use this for any questions related to the current time.'',
       ts_parameters_type = ''object'', ts_parameters_properties = [],
       ts_parameters_required = []\<rparr>]"

definition AVAILABLE_FUNCTIONS :: "tool_fn \<Rightarrow> (string \<rightharpoonup> tool_fn)" where
  "AVAILABLE_FUNCTIONS get_current_datetime = [''get_current_datetime'' \<mapsto> get_current_datetime]"

definition tool_turn :: "string \<Rightarrow> string \<Rightarrow> string \<Rightarrow> message" where
  "tool_turn call_id function_name c =
     [''role'' \<mapsto> PyStr ''tool'', ''tool_call_id'' \<mapsto> PyStr call_id,
      ''name'' \<mapsto> PyStr function_name, ''content'' \<mapsto> PyStr c]"

text \<open>
  The loop over \<open>response_message.tool_calls\<close>. It gives the exception that left it,
  if any, and the history as it stands then; \<open>k\<close> counts the calls served.
\<close>

fun execute_tool_calls ::
  "(string \<rightharpoonup> tool_fn) \<Rightarrow> nat \<Rightarrow> sdk_tool_call list \<Rightarrow> message list
     \<Rightarrow> exn option \<times> message list" where
  "execute_tool_calls available k [] conversation_history = (None, conversation_history)"
| "execute_tool_calls available k (tool_call # rest) conversation_history =
     (let function_name = tc_function_name tool_call in
      (case available function_name of
         Some function_to_call \<Rightarrow>
           (case function_to_call k of
              Inr function_response \<Rightarrow>
                execute_tool_calls available (Suc k) rest
                  (conversation_history
                     @ [tool_turn (tc_id tool_call) function_name function_response])
            | Inl e \<Rightarrow>
                (case except_clauses function_calling_globals [''Exception''] e of
                   None \<Rightarrow>
                     execute_tool_calls available (Suc k) rest
                       (conversation_history
                          @ [tool_turn (tc_id tool_call) function_name (''Error: '' @ str_exn e)])
                 | Some e' \<Rightarrow> (Some e', conversation_history)))
       | None \<Rightarrow>
           execute_tool_calls available (Suc k) rest
             (conversation_history
                @ [tool_turn (tc_id tool_call) function_name
                     (''Error: Unknown function '' @ apostrophe @ function_name @ apostrophe)])))"

definition assistant_tool_turn :: "sdk_message \<Rightarrow> message" where
  "assistant_tool_turn response_message =
     [''role'' \<mapsto> PyStr ''assistant'', ''content'' \<mapsto> opt_str (content response_message),
      ''tool_calls'' \<mapsto> PyToolCalls (map ToolCallObj (the (tool_calls response_message)))]"

definition first_request :: "message list \<Rightarrow> string \<Rightarrow> request" where
  "first_request api_ready_messages m =
     \<lparr>messages = api_ready_messages, model = m, tools = Some TOOLS_SCHEMA,
      tool_choice = Some ''auto'', temperature = 7 / 10, max_tokens = 1024,
      top_p = None, stream = None\<rparr>"

definition second_request :: "message list \<Rightarrow> string \<Rightarrow> request" where
  "second_request api_ready_messages_after_tool m =
     \<lparr>messages = api_ready_messages_after_tool, model = m, tools = None,
      tool_choice = Some ''none'', temperature = 7 / 10, max_tokens = 1024,
      top_p = None, stream = None\<rparr>"

text \<open>\<open>if response_message.tool_calls:\<close> a list that is \<open>None\<close> or empty is false.\<close>

definition truthy :: "'a list option \<Rightarrow> bool" where
  "truthy l = (case l of None \<Rightarrow> False | Some [] \<Rightarrow> False | Some (x # xs) \<Rightarrow> True)"

text \<open>
  The body of the \<open>try\<close> statement of \<open>run_conversation_with_tools\<close>, from the first
  request on: what it returns or raises, the history and the requests sent.
  \<open>filter_messages_for_api\<close> is the definition of \<open>function_calling.py\<close> itself.
\<close>

definition tools_try_body ::
  "(string \<rightharpoonup> tool_fn) \<Rightarrow> client \<Rightarrow> message list \<Rightarrow> request \<Rightarrow> string
     \<Rightarrow> (exn + string option) \<times> message list \<times> request list" where
  "tools_try_body available create h1 req1 m =
     (case create req1 of
        Inl e \<Rightarrow> (Inl e, h1, [req1])
      | Inr chat_completion \<Rightarrow>
          (case first_choice chat_completion of
             Inl e \<Rightarrow> (Inl e, h1, [req1])
           | Inr response_message \<Rightarrow>
               if truthy (tool_calls response_message) then
                 (let h2 = h1 @ [assistant_tool_turn response_message] in
                  (case execute_tool_calls available 0 (the (tool_calls response_message)) h2 of
                     (Some e, h3) \<Rightarrow> (Inl e, h3, [req1])
                   | (None, h3) \<Rightarrow>
                       (case filter_messages_for_api_fc h3 of
                          Inl e \<Rightarrow> (Inl e, h3, [req1])
                        | Inr api_ready_messages_after_tool \<Rightarrow>
                            let req2 = second_request api_ready_messages_after_tool m in
                            (case create req2 of
                               Inl e \<Rightarrow> (Inl e, h3, [req1, req2])
                             | Inr final_completion \<Rightarrow>
                                 (case first_choice final_completion of
                                    Inl e \<Rightarrow> (Inl e, h3, [req1, req2])
                                  | Inr final_message \<Rightarrow>
                                      (Inr (content final_message),
                                       h3 @ [assistant_turn (content final_message)],
                                       [req1, req2]))))))
               else
                 (Inr (content response_message),
                  h1 @ [assistant_turn (content response_message)], [req1])))"

definition run_conversation_with_tools ::
  "(string \<rightharpoonup> tool_fn) \<Rightarrow> client option \<Rightarrow> message list \<Rightarrow> string \<Rightarrow> string
     \<Rightarrow> string option outcome \<times> message list \<times> request list" where
  "run_conversation_with_tools available client conversation_history new_user_query m =
     (case client of
        None \<Rightarrow> (Returned None, conversation_history, [])
      | Some create \<Rightarrow>
          let h1 = conversation_history @ [user_turn new_user_query] in
          (case filter_messages_for_api_fc h1 of
             Inl e \<Rightarrow> (Raised e, h1, [])
           | Inr api_ready_messages \<Rightarrow>
               (case tools_try_body available create h1 (first_request api_ready_messages m) m of
                  (Inr reply, h', sent) \<Rightarrow> (Returned reply, h', sent)
                | (Inl e, h', sent) \<Rightarrow>
                    (case except_clauses function_calling_globals api_handlers e of
                       None \<Rightarrow> (Returned None, h', sent)
                     | Some e' \<Rightarrow> (Raised e', h', sent)))))"

section \<open>The evaluator\<close>

text \<open>
  \<open>str.find\<close> and \<open>str.rfind\<close> for a single character (\<open>-1\<close> when it does not
  occur) and the slice \<open>s[a:b]\<close>, where a negative bound counts from the end and both
  bounds are clipped to the string.
\<close>

fun py_find :: "char \<Rightarrow> string \<Rightarrow> int" where
  "py_find c [] = - 1"
| "py_find c (x # xs) =
     (if x = c then 0 else (let r = py_find c xs in if r = - 1 then - 1 else r + 1))"

fun py_rfind :: "char \<Rightarrow> string \<Rightarrow> int" where
  "py_rfind c [] = - 1"
| "py_rfind c (x # xs) =
     (let r = py_rfind c xs in if r \<noteq> - 1 then r + 1 else if x = c then 0 else - 1)"

definition slice_bound :: "nat \<Rightarrow> int \<Rightarrow> nat" where
  "slice_bound n i = (if i < 0 then nat (max 0 (int n + i)) else min n (nat i))"

definition py_slice :: "string \<Rightarrow> int \<Rightarrow> int \<Rightarrow> string" where
  "py_slice s a b =
     (let lo = slice_bound (length s) a; hi = slice_bound (length s) b
      in take (hi - lo) (drop lo s))"

definition double_quote :: string where
  "double_quote = [CHR 0x22]"

definition newline :: string where
  "newline = [CHR 0x0A]"

definition lbrace :: char where
  "lbrace = CHR 0x7B"

definition rbrace :: char where
  "rbrace = CHR 0x7D"

text \<open>
  What \<open>evaluate_response\<close> returns besides \<open>None\<close>: the object \<open>json.loads\<close> gave, or
  the dict \<open>{"error": .., "raw_response": ..}\<close>.
\<close>

datatype 'j evaluation = Parsed 'j | ErrorDict string string

definition system_turn :: "string \<Rightarrow> message" where
  "system_turn prompt = [''role'' \<mapsto> PyStr ''system'', ''content'' \<mapsto> PyStr prompt]"

definition evaluation_prompt_messages :: "string \<Rightarrow> string \<Rightarrow> string \<Rightarrow> message list" where
  "evaluation_prompt_messages system_prompt user_query assistant_response =
     [system_turn system_prompt,
      user_turn (''User Query: '' @ double_quote @ user_query @ double_quote @ newline @ newline
        @ ''Assistant Response: '' @ double_quote @ assistant_response @ double_quote
        @ newline @ newline @ ''Please provide your evaluation in JSON format.'')]"

definition evaluation_request :: "message list \<Rightarrow> string \<Rightarrow> request" where
  "evaluation_request msgs m =
     \<lparr>messages = msgs, model = m, tools = None, tool_choice = None,
      temperature = 2 / 10, max_tokens = 500, top_p = None, stream = None\<rparr>"

text \<open>
  The inner \<open>try\<close> statement: the search for the JSON block and its parsing.
  \<open>json_loads\<close> is the library's parser, \<open>None\<close> where it raises \<open>JSONDecodeError\<close>,
  which the \<open>except json.JSONDecodeError\<close> clause catches.
\<close>

definition parse_evaluation :: "(string \<Rightarrow> 'j option) \<Rightarrow> string \<Rightarrow> 'j evaluation" where
  "parse_evaluation json_loads evaluation_content =
     (let json_start = py_find lbrace evaluation_content;
          json_end = py_rfind rbrace evaluation_content + 1
      in if json_start \<noteq> - 1 \<and> json_end \<noteq> 0 \<and> json_end > json_start
         then (let json_string = py_slice evaluation_content json_start json_end
               in (case json_loads json_string of
                     Some parsed_evaluation \<Rightarrow> Parsed parsed_evaluation
                   | None \<Rightarrow> ErrorDict ''Failed to parse JSON'' evaluation_content))
         else ErrorDict ''Failed to parse JSON, block not found'' evaluation_content)"

text \<open>
  \<open>system_prompt\<close> is the module's constant \<open>EVALUATION_SYSTEM_PROMPT\<close>. A null
  \<open>content\<close> has no \<open>find\<close>: \<open>AttributeError\<close>, raised inside the outer \<open>try\<close>.
\<close>

definition evaluate_response ::
  "string \<Rightarrow> (string \<Rightarrow> 'j option) \<Rightarrow> client option \<Rightarrow> string \<Rightarrow> string \<Rightarrow> string
     \<Rightarrow> 'j evaluation option outcome \<times> request list" where
  "evaluate_response system_prompt json_loads client user_query assistant_response m =
     (case client of
        None \<Rightarrow> (Returned None, [])
      | Some create \<Rightarrow>
          let req = evaluation_request
                      (evaluation_prompt_messages system_prompt user_query assistant_response) m
          in
          (case (case create req of
                   Inl e \<Rightarrow> Inl e
                 | Inr chat_completion \<Rightarrow>
                     (case first_choice chat_completion of
                        Inl e \<Rightarrow> Inl e
                      | Inr message \<Rightarrow>
                          (case content message of
                             None \<Rightarrow> Inl (attribute_error ''NoneType'' ''find'')
                           | Some evaluation_content \<Rightarrow>
                               Inr (parse_evaluation json_loads evaluation_content)))) of
             Inr evaluation \<Rightarrow> (Returned (Some evaluation), [req])
           | Inl e \<Rightarrow>
               (case except_clauses evaluation_globals api_handlers e of
                  None \<Rightarrow> (Returned None, [req])
                | Some e' \<Rightarrow> (Raised e', [req]))))"

section \<open>The basic driver and the client factory\<close>

text \<open>\<open>system_prompt\<close> is the module's constant \<open>CODING_ASSISTANT_SYSTEM_PROMPT\<close>.\<close>

definition ask_llm_basic ::
  "string \<Rightarrow> client option \<Rightarrow> string \<Rightarrow> string \<Rightarrow> string option outcome \<times> request list" where
  "ask_llm_basic system_prompt client user_query m =
     (case client of
        None \<Rightarrow> (Returned None, [])
      | Some create \<Rightarrow>
          let req = chat_request [system_turn system_prompt, user_turn user_query] m in
          (case (case create req of
                   Inl e \<Rightarrow> Inl e
                 | Inr chat_completion \<Rightarrow>
                     (case first_choice chat_completion of
                        Inl e \<Rightarrow> Inl e
                      | Inr message \<Rightarrow> Inr (content message))) of
             Inr reply \<Rightarrow> (Returned reply, [req])
           | Inl e \<Rightarrow>
               (case except_clauses llm_globals api_handlers e of
                  None \<Rightarrow> (Returned None, [req])
                | Some e' \<Rightarrow> (Raised e', [req]))))"

text \<open>
  \<open>get_groq_client\<close>: \<open>environ\<close> is the process environment, \<open>Groq\<close> the SDK's
  constructor, which gives a client or raises. \<open>not api_key\<close> holds for an absent
  variable and for the empty string.
\<close>

definition get_groq_client ::
  "(string \<rightharpoonup> string) \<Rightarrow> (string \<Rightarrow> exn + client) \<Rightarrow> client option outcome" where
  "get_groq_client environ Groq =
     (case (case environ ''GROQ_API_KEY'' of
              None \<Rightarrow> Inr None
            | Some api_key \<Rightarrow>
                if api_key = [] then Inr None
                else (case Groq api_key of Inl e \<Rightarrow> Inl e | Inr c \<Rightarrow> Inr (Some c))) of
        Inr r \<Rightarrow> Returned r
      | Inl e \<Rightarrow>
          (case except_clauses groq_globals [''Exception''] e of
             None \<Rightarrow> Returned None
           | Some e' \<Rightarrow> Raised e'))"

section \<open>Auxiliary definitions for the statements\<close>

text \<open>The tool turn the loop appends for the call \<open>tc\<close>, served as the \<open>k\<close>-th of the turn.\<close>

definition served_turn :: "(string \<rightharpoonup> tool_fn) \<Rightarrow> nat \<Rightarrow> sdk_tool_call \<Rightarrow> message" where
  "served_turn available k tc =
     tool_turn (tc_id tc) (tc_function_name tc)
       (case available (tc_function_name tc) of
          None \<Rightarrow> ''Error: Unknown function '' @ apostrophe @ tc_function_name tc @ apostrophe
        | Some f \<Rightarrow> (case f k of Inr s \<Rightarrow> s | Inl e \<Rightarrow> ''Error: '' @ str_exn e))"

fun served_turns :: "(string \<rightharpoonup> tool_fn) \<Rightarrow> nat \<Rightarrow> sdk_tool_call list \<Rightarrow> message list" where
  "served_turns available k [] = []"
| "served_turns available k (tc # tcs) =
     served_turn available k tc # served_turns available (Suc k) tcs"

text \<open>The \<open>NameError\<close> raised where an \<open>except RateLimitError\<close> clause meets an unbound name.\<close>

definition rate_limit_name_error :: exn where
  "rate_limit_name_error =
     Exn NameError (''name '' @ apostrophe @ ''RateLimitError'' @ apostrophe @ '' is not defined'')"

section \<open>Concrete inputs\<close>

definition example_tool_call :: sdk_tool_call where
  "example_tool_call =
     \<lparr>tc_id = ''call_1'', tc_type = ''function'',
      tc_function_name = ''get_current_datetime'', tc_function_arguments = ''{}''\<rparr>"

definition retry_tool_call :: sdk_tool_call where
  "retry_tool_call =
     \<lparr>tc_id = ''call_2'', tc_type = ''function'',
      tc_function_name = ''get_current_datetime'', tc_function_arguments = ''{}''\<rparr>"

definition unknown_tool_call :: sdk_tool_call where
  "unknown_tool_call =
     \<lparr>tc_id = ''call_3'', tc_type = ''function'',
      tc_function_name = ''delete_universe'', tc_function_arguments = ''{}''\<rparr>"

definition requested_tool_calls :: "sdk_tool_call list" where
  "requested_tool_calls = [example_tool_call, retry_tool_call, unknown_tool_call]"

definition local_history :: "message list" where
  "local_history =
     [[''role'' \<mapsto> PyStr ''system'', ''content'' \<mapsto> PyStr ''You are a coding assistant.'',
       ''timestamp'' \<mapsto> PyStr ''12:00''],
      [''role'' \<mapsto> PyStr ''user'']]"

definition wire_history :: "message list" where
  "wire_history =
     [[''role'' \<mapsto> PyStr ''system'', ''content'' \<mapsto> PyStr ''You are a coding assistant.''],
      [''role'' \<mapsto> PyStr ''user'', ''content'' \<mapsto> PyStr '''']]"

definition tool_history :: "message list" where
  "tool_history =
     [user_turn ''What time is it?'',
      tool_turn ''call_1'' ''get_current_datetime'' ''2026-11-04 12:00:00'']"

definition tool_history_ch :: "message list" where
  "tool_history_ch =
     [user_turn ''What time is it?'',
      [''role'' \<mapsto> PyStr ''tool'', ''tool_call_id'' \<mapsto> PyStr ''call_1'',
       ''content'' \<mapsto> PyStr ''2026-11-04 12:00:00'']]"

definition null_history :: "message list" where
  "null_history =
     [[''role'' \<mapsto> PyStr ''assistant''],
      [''role'' \<mapsto> PyStr ''tool'', ''tool_call_id'' \<mapsto> PyStr ''call_1'',
       ''name'' \<mapsto> PyStr ''get_current_datetime'', ''content'' \<mapsto> PyNone]]"

definition null_history_ch :: "message list" where
  "null_history_ch =
     [[''role'' \<mapsto> PyStr ''assistant'', ''content'' \<mapsto> PyNone],
      [''role'' \<mapsto> PyStr ''tool'', ''tool_call_id'' \<mapsto> PyStr ''call_1'',
       ''content'' \<mapsto> PyStr '''']]"

definition null_history_fc :: "message list" where
  "null_history_fc =
     [[''role'' \<mapsto> PyStr ''assistant''],
      [''role'' \<mapsto> PyStr ''tool'', ''tool_call_id'' \<mapsto> PyStr ''call_1'',
       ''name'' \<mapsto> PyStr ''get_current_datetime'']]"

definition example_history :: "message list" where
  "example_history = [system_turn ''You are a coding assistant.'']"

definition direct_client :: client where
  "direct_client =
     (\<lambda>req. Inr \<lparr>choices = [\<lparr>content = Some ''A dict maps keys to values.'',
                               tool_calls = None\<rparr>]\<rparr>)"

definition tool_client :: client where
  "tool_client =
     (\<lambda>req. if tool_choice req = Some ''auto''
            then Inr \<lparr>choices = [\<lparr>content = None,
                     tool_calls = Some requested_tool_calls\<rparr>]\<rparr>
            else Inr \<lparr>choices = [\<lparr>content = Some ''It is noon.'', tool_calls = None\<rparr>]\<rparr>)"

definition null_client :: client where
  "null_client = (\<lambda>req. Inr \<lparr>choices = [\<lparr>content = None, tool_calls = None\<rparr>]\<rparr>)"

definition rate_limited_client :: client where
  "rate_limited_client = (\<lambda>req. Inl (Exn RateLimitError ''Error code: 429''))"

definition broken_client :: client where
  "broken_client = (\<lambda>req. Inl (Exn RuntimeError ''boom''))"

definition empty_client :: client where
  "empty_client = (\<lambda>req. Inr \<lparr>choices = []\<rparr>)"

definition flaky_clock :: tool_fn where
  "flaky_clock =
     (\<lambda>k. if k = 0 then Inr ''2026-11-04 12:00:00''
          else Inl (Exn RuntimeError ''clock failure''))"




definition rejecting_parser :: "string \<Rightarrow> bool option" where
  "rejecting_parser = (\<lambda>s. None)"

section \<open>Properties of the normalizers\<close>

lemma filter_message_ch_idem:
  "filter_message_ch m = Inr y \<Longrightarrow> filter_message_ch y = Inr y"
  apply (cases "m ''role''"; cases "m ''content''"; cases "m ''tool_calls''";
      cases "m ''tool_call_id''")
  apply (simp_all add: filter_message_ch_def py_get_def Let_def domIff)
  apply (auto split: if_splits simp: filter_message_ch_def py_get_def Let_def domIff)
  done

lemma filter_message_fc_idem:
  assumes "filter_message_fc m = Inr y"
    and "m ''tool_calls'' = None \<or> m ''tool_calls'' = Some (PyToolCalls [])"
  shows "filter_message_fc y = Inr y"
proof -
  obtain r where r: "m ''role'' = Some r"
    using assms(1) by (cases "m ''role''") (simp_all add: filter_message_fc_def)
  show ?thesis
  proof (cases "r = PyStr ''tool''")
    case True
    with assms r show ?thesis
      apply (cases "m ''content''"; cases "m ''name''"; cases "m ''tool_call_id''")
      apply (simp_all add: filter_message_fc_def py_get_def Let_def domIff)
      apply (auto split: if_splits simp: filter_message_fc_def py_get_def Let_def domIff)
      done
  next
    case False
    with assms r show ?thesis
      apply (cases "m ''content''"; cases "r = PyStr ''assistant''")
      apply (simp_all add: filter_message_fc_def py_get_def Let_def domIff)
      apply (auto split: if_splits simp: filter_message_fc_def py_get_def Let_def domIff)
      done
  qed
qed

lemma filter_loop_ch_iff:
  "filter_loop_ch acc xs = Inr ys \<longleftrightarrow>
     (\<exists>zs. ys = acc @ zs \<and> list_all2 (\<lambda>x z. filter_message_ch x = Inr z) xs zs)"
proof (induction xs arbitrary: acc)
  case Nil
  show ?case by auto
next
  case (Cons x xs)
  show ?case
  proof (cases "filter_message_ch x")
    case (Inl e)
    then show ?thesis by (auto simp: list_all2_Cons1)
  next
    case (Inr z)
    then show ?thesis by (auto simp: Cons.IH list_all2_Cons1)
  qed
qed

lemma filter_loop_fc_iff:
  "filter_loop_fc acc xs = Inr ys \<longleftrightarrow>
     (\<exists>zs. ys = acc @ zs \<and> list_all2 (\<lambda>x z. filter_message_fc x = Inr z) xs zs)"
proof (induction xs arbitrary: acc)
  case Nil
  show ?case by auto
next
  case (Cons x xs)
  show ?case
  proof (cases "filter_message_fc x")
    case (Inl e)
    then show ?thesis by (auto simp: list_all2_Cons1)
  next
    case (Inr z)
    then show ?thesis by (auto simp: Cons.IH list_all2_Cons1)
  qed
qed

lemma filter_ch_iff:
  "filter_messages_for_api_ch xs = Inr ys
     \<longleftrightarrow> list_all2 (\<lambda>x z. filter_message_ch x = Inr z) xs ys"
  by (simp add: filter_messages_for_api_ch_def filter_loop_ch_iff)

lemma filter_fc_iff:
  "filter_messages_for_api_fc xs = Inr ys
     \<longleftrightarrow> list_all2 (\<lambda>x z. filter_message_fc x = Inr z) xs ys"
  by (simp add: filter_messages_for_api_fc_def filter_loop_fc_iff)

lemma filter_ch_idem:
  "filter_messages_for_api_ch x = Inr y \<Longrightarrow> filter_messages_for_api_ch y = Inr y"
  unfolding filter_ch_iff
  by (induction rule: list_all2_induct) (auto dest: filter_message_ch_idem)

lemma filter_fc_idem:
  "filter_messages_for_api_fc x = Inr y \<Longrightarrow>
   \<forall>m \<in> set x. m ''tool_calls'' = None \<or> m ''tool_calls'' = Some (PyToolCalls []) \<Longrightarrow>
   filter_messages_for_api_fc y = Inr y"
  unfolding filter_fc_iff
  by (induction rule: list_all2_induct) (auto dest: filter_message_fc_idem)

lemma filter_ch_local_history: "filter_messages_for_api_ch local_history = Inr wire_history"
  by (simp add: filter_messages_for_api_ch_def filter_message_ch_def local_history_def
      wire_history_def py_get_def domIff)

lemma filter_fc_local_history: "filter_messages_for_api_fc local_history = Inr wire_history"
  by (simp add: filter_messages_for_api_fc_def filter_message_fc_def local_history_def
      wire_history_def py_get_def domIff)

text \<open>
  C3 (amended). The normalizer of \<open>chat_history.py\<close> is idempotent: whenever it returns
  a sequence, it returns that sequence unchanged when applied to it. The normalizer of
  \<open>function_calling.py\<close> is idempotent on every sequence none of whose turns carries
  tool calls (the key \<open>tool_calls\<close> is absent or holds the empty list).
\<close>

theorem normalizer_idempotent:
  "(filter_messages_for_api_ch x = Inr y \<longrightarrow> filter_messages_for_api_ch y = Inr y) \<and>
   (filter_messages_for_api_fc x = Inr y \<and>
      (\<forall>m \<in> set x. m ''tool_calls'' = None \<or> m ''tool_calls'' = Some (PyToolCalls []))
      \<longrightarrow> filter_messages_for_api_fc y = Inr y)"
  using filter_ch_idem filter_fc_idem by blast

theorem normalizer_idempotent_witness:
  "filter_messages_for_api_ch local_history = Inr wire_history \<and>
   filter_messages_for_api_ch wire_history = Inr wire_history \<and>
   filter_messages_for_api_fc local_history = Inr wire_history \<and>
   filter_messages_for_api_fc wire_history = Inr wire_history"
proof -
  have tc: "\<forall>m \<in> set local_history.
      m ''tool_calls'' = None \<or> m ''tool_calls'' = Some (PyToolCalls [])"
    by (simp add: local_history_def)
  show ?thesis
    using normalizer_idempotent [of local_history wire_history] tc
      filter_ch_local_history filter_fc_local_history
    by simp
qed

text \<open>
  C3 as stated fails for the normalizer of \<open>function_calling.py\<close>: the assistant turn
  the tool-calling driver records is normalized into a turn whose tool calls are dicts,
  and normalizing that turn again raises \<open>AttributeError\<close>, since a dict has no
  attribute \<open>id\<close>.
\<close>

theorem normalizer_idempotent_counterexample:
  "filter_messages_for_api_fc
     [assistant_tool_turn \<lparr>content = None, tool_calls = Some [example_tool_call]\<rparr>]
   = Inr [[''role'' \<mapsto> PyStr ''assistant'',
           ''tool_calls'' \<mapsto> PyToolCalls
              [ToolCallDict ''call_1'' ''function'' ''get_current_datetime'' ''{}''],
           ''content'' \<mapsto> PyNone]] \<and>
   filter_messages_for_api_fc
     [[''role'' \<mapsto> PyStr ''assistant'',
       ''tool_calls'' \<mapsto> PyToolCalls
          [ToolCallDict ''call_1'' ''function'' ''get_current_datetime'' ''{}''],
       ''content'' \<mapsto> PyNone]]
   = Inl (attribute_error ''dict'' ''id'')"
  by (simp add: filter_messages_for_api_fc_def filter_message_fc_def assistant_tool_turn_def
      example_tool_call_def opt_str_def py_get_def domIff)

lemma filter_message_fc_tool:
  assumes "filter_message_fc m = Inr y" and "m ''role'' = Some (PyStr ''tool'')"
  shows "y ''tool_call_id'' = m ''tool_call_id'' \<and> y ''tool_call_id'' \<noteq> None \<and>
         y ''name'' = m ''name'' \<and> y ''name'' \<noteq> None \<and>
         y ''content'' = (if py_get m ''content'' = PyNone then None else m ''content'')"
  using assms
  apply (cases "m ''content''"; cases "m ''name''"; cases "m ''tool_call_id''"; cases "m ''tool_calls''")
  apply (simp_all add: filter_message_fc_def py_get_def Let_def domIff)
  apply (auto split: if_splits sum.splits simp: py_get_def)
  done

lemma filter_message_ch_tool:
  assumes "filter_message_ch m = Inr y" and "m ''role'' = Some (PyStr ''tool'')"
  shows "y ''name'' = None \<and>
         y ''tool_call_id'' = (if m ''tool_call_id'' = Some PyNone then None else m ''tool_call_id'') \<and>
         y ''content'' = Some (if py_get m ''content'' = PyNone \<and>
             (m ''tool_calls'' = None \<or> m ''tool_calls'' = Some PyNone) then PyStr '''' else py_get m ''content'')"
  using assms
  apply (cases "m ''content''"; cases "m ''tool_call_id''"; cases "m ''tool_calls''")
  apply (simp_all add: filter_message_ch_def py_get_def Let_def domIff)
  apply (auto split: if_splits simp: py_get_def)
  done

lemma filter_message_ch_default:
  assumes "filter_message_ch m = Inr y" and "m ''role'' = Some r"
    and "py_get m ''content'' = PyNone"
  shows "(r \<noteq> PyStr ''assistant'' \<and> (m ''tool_calls'' = None \<or> m ''tool_calls'' = Some PyNone)
           \<longrightarrow> y ''content'' = Some (PyStr [])) \<and>
         (r = PyStr ''assistant'' \<longrightarrow> y ''content'' = Some PyNone)"
  using assms
  apply (cases "m ''content''"; cases "m ''tool_call_id''"; cases "m ''tool_calls''")
  apply (simp_all add: filter_message_ch_def py_get_def Let_def domIff)
  apply (auto split: if_splits simp: py_get_def)
  done

lemma filter_message_fc_default:
  assumes "filter_message_fc m = Inr y" and "m ''role'' = Some r"
    and "py_get m ''content'' = PyNone"
  shows "(r \<noteq> PyStr ''assistant'' \<and> r \<noteq> PyStr ''tool'' \<and> (m ''tool_calls'' = None \<or> m ''tool_calls'' = Some PyNone)
           \<longrightarrow> y ''content'' = Some (PyStr [])) \<and>
     (r = PyStr ''tool'' \<longrightarrow> y ''content'' = None) \<and>
     (r = PyStr ''assistant'' \<longrightarrow> y ''content'' = None \<or> y ''content'' = Some PyNone)"
  using assms
  apply (cases "m ''content''"; cases "m ''tool_call_id''"; cases "m ''tool_calls''"; cases "m ''name''")
  apply (simp_all add: filter_message_fc_def py_get_def Let_def domIff)
  apply (auto split: if_splits sum.splits simp: py_get_def)
  done


lemma filter_ch_nth:
  "filter_messages_for_api_ch ms = Inr ys \<Longrightarrow> i < length ms \<Longrightarrow>
     length ys = length ms \<and> filter_message_ch (ms ! i) = Inr (ys ! i)"
  by (auto simp: filter_ch_iff dest: list_all2_lengthD list_all2_nthD)

lemma filter_fc_nth:
  "filter_messages_for_api_fc ms = Inr ys \<Longrightarrow> i < length ms \<Longrightarrow>
     length ys = length ms \<and> filter_message_fc (ms ! i) = Inr (ys ! i)"
  by (auto simp: filter_fc_iff dest: list_all2_lengthD list_all2_nthD)

lemma filter_message_fc_tool_turn:
  "filter_message_fc (tool_turn call_id function_name c) = Inr (tool_turn call_id function_name c)"
  by (auto simp add: filter_message_fc_def tool_turn_def py_get_def domIff fun_eq_iff)

lemma filter_message_fc_user_turn: "filter_message_fc (user_turn q) = Inr (user_turn q)"
  by (simp add: filter_message_fc_def user_turn_def py_get_def domIff)

lemma filter_message_ch_user_turn: "filter_message_ch (user_turn q) = Inr (user_turn q)"
  by (simp add: filter_message_ch_def user_turn_def py_get_def domIff)

text \<open>
  C6 (amended). For every turn with role \<open>tool\<close> of a sequence the normalizer of
  \<open>function_calling.py\<close> accepts, the output record carries the turn's \<open>tool_call_id\<close>
  and \<open>name\<close>, and its content when that is not null (a null content is left out); a
  tool turn as the tool-calling driver records it, whose content is the function's
  result, passes unchanged. The normalizer of \<open>chat_history.py\<close> never includes
  \<open>name\<close>: of a tool turn it keeps the \<open>tool_call_id\<close> that is not null and the
  content (the empty string for a null content of a turn without tool calls).
\<close>

theorem tool_turn_normalized:
  "(filter_messages_for_api_fc ms = Inr ys \<and> i < length ms
      \<and> (ms ! i) ''role'' = Some (PyStr ''tool'') \<longrightarrow>
      length ys = length ms \<and>
      (ys ! i) ''tool_call_id'' = (ms ! i) ''tool_call_id'' \<and> (ys ! i) ''tool_call_id'' \<noteq> None \<and>
      (ys ! i) ''name'' = (ms ! i) ''name'' \<and> (ys ! i) ''name'' \<noteq> None \<and>
      (ys ! i) ''content''
        = (if py_get (ms ! i) ''content'' = PyNone then None else (ms ! i) ''content'')) \<and>
   filter_messages_for_api_fc [tool_turn call_id function_name c]
     = Inr [tool_turn call_id function_name c] \<and>
   (filter_messages_for_api_ch ms = Inr ys \<and> i < length ms
      \<and> (ms ! i) ''role'' = Some (PyStr ''tool'') \<longrightarrow>
      length ys = length ms \<and>
      (ys ! i) ''name'' = None \<and>
      (ys ! i) ''tool_call_id''
        = (if (ms ! i) ''tool_call_id'' = Some PyNone then None else (ms ! i) ''tool_call_id'') \<and>
      (ys ! i) ''content''
        = Some (if py_get (ms ! i) ''content'' = PyNone \<and>
                   ((ms ! i) ''tool_calls'' = None \<or> (ms ! i) ''tool_calls'' = Some PyNone)
                then PyStr [] else py_get (ms ! i) ''content''))"
proof (intro conjI impI)
  assume a: "filter_messages_for_api_fc ms = Inr ys \<and> i < length ms
      \<and> (ms ! i) ''role'' = Some (PyStr ''tool'')"
  then have n: "length ys = length ms" "filter_message_fc (ms ! i) = Inr (ys ! i)"
    using filter_fc_nth by blast+
  note t = filter_message_fc_tool [OF n(2)]
  show "length ys = length ms" by (rule n(1))
  show "(ys ! i) ''tool_call_id'' = (ms ! i) ''tool_call_id''" using t a by blast
  show "(ys ! i) ''tool_call_id'' \<noteq> None" using t a by blast
  show "(ys ! i) ''name'' = (ms ! i) ''name''" using t a by blast
  show "(ys ! i) ''name'' \<noteq> None" using t a by blast
  show "(ys ! i) ''content''
        = (if py_get (ms ! i) ''content'' = PyNone then None else (ms ! i) ''content'')"
    using t a by blast
next
  show "filter_messages_for_api_fc [tool_turn call_id function_name c]
     = Inr [tool_turn call_id function_name c]"
    by (simp add: filter_messages_for_api_fc_def filter_message_fc_tool_turn)
next
  assume a: "filter_messages_for_api_ch ms = Inr ys \<and> i < length ms
      \<and> (ms ! i) ''role'' = Some (PyStr ''tool'')"
  then have n: "length ys = length ms" "filter_message_ch (ms ! i) = Inr (ys ! i)"
    using filter_ch_nth by blast+
  note t = filter_message_ch_tool [OF n(2)]
  show "length ys = length ms" by (rule n(1))
  show "(ys ! i) ''name'' = None" using t a by blast
  show "(ys ! i) ''tool_call_id''
        = (if (ms ! i) ''tool_call_id'' = Some PyNone then None else (ms ! i) ''tool_call_id'')"
    using t a by blast
  show "(ys ! i) ''content''
        = Some (if py_get (ms ! i) ''content'' = PyNone \<and>
                   ((ms ! i) ''tool_calls'' = None \<or> (ms ! i) ''tool_calls'' = Some PyNone)
                then PyStr [] else py_get (ms ! i) ''content'')"
    using t a by blast
qed

theorem tool_turn_normalized_witness:
  "filter_messages_for_api_fc tool_history = Inr tool_history \<and>
   (tool_history ! 1) ''tool_call_id'' = Some (PyStr ''call_1'') \<and>
   (tool_history ! 1) ''name'' = Some (PyStr ''get_current_datetime'') \<and>
   (tool_history ! 1) ''content'' = Some (PyStr ''2026-11-04 12:00:00'') \<and>
   filter_messages_for_api_ch tool_history = Inr tool_history_ch \<and>
   (tool_history_ch ! 1) ''name'' = None \<and>
   (tool_history_ch ! 1) ''tool_call_id'' = Some (PyStr ''call_1'') \<and>
   (tool_history_ch ! 1) ''content'' = Some (PyStr ''2026-11-04 12:00:00'')"
proof -
  have fc: "filter_messages_for_api_fc tool_history = Inr tool_history"
    by (simp add: filter_messages_for_api_fc_def filter_message_fc_tool_turn tool_history_def
        filter_message_fc_user_turn)
  have ch: "filter_messages_for_api_ch tool_history = Inr tool_history_ch"
    by (simp add: filter_messages_for_api_ch_def tool_history_def tool_history_ch_def
        filter_message_ch_def user_turn_def tool_turn_def py_get_def domIff)
  have r: "1 < length tool_history \<and> (tool_history ! 1) ''role'' = Some (PyStr ''tool'')"
    by (simp add: tool_history_def tool_turn_def)
  have v: "(tool_history ! 1) ''tool_call_id'' = Some (PyStr ''call_1'') \<and>
      (tool_history ! 1) ''name'' = Some (PyStr ''get_current_datetime'') \<and>
      (tool_history ! 1) ''content'' = Some (PyStr ''2026-11-04 12:00:00'') \<and>
      (tool_history ! 1) ''tool_calls'' = None"
    by (simp add: tool_history_def tool_turn_def)
  from tool_turn_normalized [of tool_history tool_history 1 "''a''" "''b''" "''c''"]
    tool_turn_normalized [of tool_history tool_history_ch 1 "''a''" "''b''" "''c''"]
    fc ch r v
  show ?thesis by (simp add: py_get_def)
qed

text \<open>
  C6 as stated fails for the normalizer of \<open>chat_history.py\<close>: the record it gives for
  a tool turn has the keys \<open>role\<close>, \<open>tool_call_id\<close> and \<open>content\<close>, and no \<open>name\<close>.
\<close>

theorem tool_turn_normalized_counterexample:
  "filter_messages_for_api_ch [tool_turn ''call_1'' ''get_current_datetime'' ''2026-11-04 12:00:00'']
     = Inr [[''role'' \<mapsto> PyStr ''tool'', ''tool_call_id'' \<mapsto> PyStr ''call_1'',
             ''content'' \<mapsto> PyStr ''2026-11-04 12:00:00'']] \<and>
   ''name'' \<notin> dom [''role'' \<mapsto> PyStr ''tool'', ''tool_call_id'' \<mapsto> PyStr ''call_1'',
             ''content'' \<mapsto> PyStr ''2026-11-04 12:00:00'']"
  by (simp add: filter_messages_for_api_ch_def filter_message_ch_def tool_turn_def py_get_def
      domIff)


text \<open>
  C8 (amended). For every turn whose content is absent or null, whose role is not
  \<open>assistant\<close> and which carries no tool calls, the normalizer of \<open>chat_history.py\<close>
  gives the empty string as content; the normalizer of \<open>function_calling.py\<close> does so
  when the role is moreover not \<open>tool\<close>. An assistant turn keeps a null content (or,
  in \<open>function_calling.py\<close>, has none), with or without a pending tool call, and the
  normalizer of \<open>function_calling.py\<close> gives a tool turn with null content no content.
\<close>

theorem null_content_normalized:
  "(filter_messages_for_api_ch ms = Inr ys \<and> i < length ms \<and> (ms ! i) ''role'' = Some r
      \<and> py_get (ms ! i) ''content'' = PyNone \<longrightarrow>
      (r \<noteq> PyStr ''assistant''
         \<and> ((ms ! i) ''tool_calls'' = None \<or> (ms ! i) ''tool_calls'' = Some PyNone)
         \<longrightarrow> (ys ! i) ''content'' = Some (PyStr '''')) \<and>
      (r = PyStr ''assistant'' \<longrightarrow> (ys ! i) ''content'' = Some PyNone)) \<and>
   (filter_messages_for_api_fc ms = Inr ys \<and> i < length ms \<and> (ms ! i) ''role'' = Some r
      \<and> py_get (ms ! i) ''content'' = PyNone \<longrightarrow>
      (r \<noteq> PyStr ''assistant'' \<and> r \<noteq> PyStr ''tool''
         \<and> ((ms ! i) ''tool_calls'' = None \<or> (ms ! i) ''tool_calls'' = Some PyNone)
         \<longrightarrow> (ys ! i) ''content'' = Some (PyStr '''')) \<and>
      (r = PyStr ''tool'' \<longrightarrow> (ys ! i) ''content'' = None) \<and>
      (r = PyStr ''assistant''
         \<longrightarrow> (ys ! i) ''content'' = None \<or> (ys ! i) ''content'' = Some PyNone))"
proof -
  have ch: "(r \<noteq> PyStr ''assistant''
         \<and> ((ms ! i) ''tool_calls'' = None \<or> (ms ! i) ''tool_calls'' = Some PyNone)
         \<longrightarrow> (ys ! i) ''content'' = Some (PyStr '''')) \<and>
      (r = PyStr ''assistant'' \<longrightarrow> (ys ! i) ''content'' = Some PyNone)"
    if a: "filter_messages_for_api_ch ms = Inr ys \<and> i < length ms
      \<and> (ms ! i) ''role'' = Some r \<and> py_get (ms ! i) ''content'' = PyNone"
  proof -
    from a have n: "filter_message_ch (ms ! i) = Inr (ys ! i)"
      using filter_ch_nth by blast
    from a have r: "(ms ! i) ''role'' = Some r" and c: "py_get (ms ! i) ''content'' = PyNone"
      by blast+
    show ?thesis by (rule filter_message_ch_default [OF n r c])
  qed
  have fc: "(r \<noteq> PyStr ''assistant'' \<and> r \<noteq> PyStr ''tool''
         \<and> ((ms ! i) ''tool_calls'' = None \<or> (ms ! i) ''tool_calls'' = Some PyNone)
         \<longrightarrow> (ys ! i) ''content'' = Some (PyStr '''')) \<and>
      (r = PyStr ''tool'' \<longrightarrow> (ys ! i) ''content'' = None) \<and>
      (r = PyStr ''assistant''
         \<longrightarrow> (ys ! i) ''content'' = None \<or> (ys ! i) ''content'' = Some PyNone)"
    if a: "filter_messages_for_api_fc ms = Inr ys \<and> i < length ms
      \<and> (ms ! i) ''role'' = Some r \<and> py_get (ms ! i) ''content'' = PyNone"
  proof -
    from a have n: "filter_message_fc (ms ! i) = Inr (ys ! i)"
      using filter_fc_nth by blast
    from a have r: "(ms ! i) ''role'' = Some r" and c: "py_get (ms ! i) ''content'' = PyNone"
      by blast+
    show ?thesis by (rule filter_message_fc_default [OF n r c])
  qed
  from ch fc show ?thesis by blast
qed

theorem null_content_normalized_witness:
  "filter_messages_for_api_ch local_history = Inr wire_history \<and>
   filter_messages_for_api_fc local_history = Inr wire_history \<and>
   (local_history ! 1) ''role'' = Some (PyStr ''user'') \<and>
   (local_history ! 1) ''content'' = None \<and>
   (wire_history ! 1) ''content'' = Some (PyStr '''') \<and>
   filter_messages_for_api_ch null_history = Inr null_history_ch \<and>
   (null_history_ch ! 0) ''content'' = Some PyNone \<and>
   filter_messages_for_api_fc null_history = Inr null_history_fc \<and>
   (null_history_fc ! 0) ''content'' = None \<and>
   (null_history_fc ! 1) ''content'' = None"
proof -
  have l: "1 < length local_history \<and> (local_history ! 1) ''role'' = Some (PyStr ''user'')
      \<and> (local_history ! 1) ''content'' = None \<and> py_get (local_history ! 1) ''content'' = PyNone
      \<and> (local_history ! 1) ''tool_calls'' = None"
    by (simp add: local_history_def py_get_def)
  have ch: "filter_messages_for_api_ch null_history = Inr null_history_ch"
    by (simp add: filter_messages_for_api_ch_def filter_message_ch_def null_history_def
        null_history_ch_def py_get_def domIff)
  have fc: "filter_messages_for_api_fc null_history = Inr null_history_fc"
    by (simp add: filter_messages_for_api_fc_def filter_message_fc_def null_history_def
        null_history_fc_def py_get_def domIff)
  have n: "0 < length null_history \<and> 1 < length null_history
      \<and> (null_history ! 0) ''role'' = Some (PyStr ''assistant'')
      \<and> py_get (null_history ! 0) ''content'' = PyNone
      \<and> (null_history ! 1) ''role'' = Some (PyStr ''tool'')
      \<and> py_get (null_history ! 1) ''content'' = PyNone"
    by (simp add: null_history_def py_get_def)
  from null_content_normalized [of local_history wire_history 1 "PyStr ''user''"]
    null_content_normalized [of null_history null_history_ch 0 "PyStr ''assistant''"]
    null_content_normalized [of null_history null_history_fc 0 "PyStr ''assistant''"]
    null_content_normalized [of null_history null_history_fc 1 "PyStr ''tool''"]
    l n ch fc filter_ch_local_history filter_fc_local_history
  show ?thesis by (simp add: null_history_fc_def)
qed

text \<open>
  C8 as stated fails in both normalizers. In \<open>chat_history.py\<close> an assistant turn
  without content and without a tool call keeps a null content. In
  \<open>function_calling.py\<close> a tool turn with null content is given no content at all.
\<close>

theorem null_content_normalized_counterexample:
  "filter_messages_for_api_ch [[''role'' \<mapsto> PyStr ''assistant'']]
     = Inr [[''role'' \<mapsto> PyStr ''assistant'', ''content'' \<mapsto> PyNone]] \<and>
   filter_messages_for_api_fc
     [[''role'' \<mapsto> PyStr ''tool'', ''tool_call_id'' \<mapsto> PyStr ''call_1'',
       ''name'' \<mapsto> PyStr ''get_current_datetime'', ''content'' \<mapsto> PyNone]]
     = Inr [[''role'' \<mapsto> PyStr ''tool'', ''tool_call_id'' \<mapsto> PyStr ''call_1'',
             ''name'' \<mapsto> PyStr ''get_current_datetime'']]"
  by (simp add: filter_messages_for_api_ch_def filter_message_ch_def
      filter_messages_for_api_fc_def filter_message_fc_def py_get_def domIff)


section \<open>Properties of the drivers\<close>

lemma isinstance_Exception: "isinstance e Exception"
proof (cases e)
  case (Exn c s)
  then show ?thesis by (cases c) (simp_all add: isinstance_def)
qed

lemma lookup_Exception_fc: "lookup_name function_calling_globals ''Exception'' = Inr Exception"
  by (simp add: lookup_name_def function_calling_globals_def builtins_def)

lemma except_Exception_fc: "except_clauses function_calling_globals [''Exception''] e = None"
  by (simp add: lookup_name_def function_calling_globals_def builtins_def isinstance_Exception)

lemma except_Exception_groq: "except_clauses groq_globals [''Exception''] e = None"
  by (simp add: lookup_name_def groq_globals_def builtins_def isinstance_Exception)

lemma except_api_handlers:
  assumes "g = [''APIError'' \<mapsto> APIError]"
  shows "except_clauses g api_handlers e
     = (if isinstance e APIError then None else Some rate_limit_name_error)"
  by (simp add: assms api_handlers_def lookup_name_def builtins_def rate_limit_name_error_def)

lemma execute_tool_calls_eq:
  "execute_tool_calls available k tcs h = (None, h @ served_turns available k tcs)"
  by (induction tcs arbitrary: k h)
     (simp_all add: served_turn_def lookup_Exception_fc isinstance_Exception Let_def
        split: option.splits sum.splits)

lemma length_served_turns: "length (served_turns available k tcs) = length tcs"
  by (induction tcs arbitrary: k) simp_all

lemma nth_served_turns:
  "i < length tcs \<Longrightarrow> served_turns available k tcs ! i = served_turn available (k + i) (tcs ! i)"
proof (induction tcs arbitrary: k i)
  case Nil
  then show ?case by simp
next
  case (Cons tc tcs)
  then show ?case by (cases i) simp_all
qed

lemma filter_fc_append:
  "filter_messages_for_api_fc xs = Inr a \<Longrightarrow> filter_messages_for_api_fc ys = Inr b \<Longrightarrow>
     filter_messages_for_api_fc (xs @ ys) = Inr (a @ b)"
  by (simp add: filter_fc_iff list_all2_appendI)

lemma filter_fc_served_turns:
  "filter_messages_for_api_fc (served_turns available k tcs) = Inr (served_turns available k tcs)"
  unfolding filter_fc_iff
  by (induction tcs arbitrary: k) (simp_all add: served_turn_def filter_message_fc_tool_turn)

lemma reshape_objs:
  "reshape_tool_call_list (map ToolCallObj tcs)
     = Inr (map (\<lambda>tc. ToolCallDict (tc_id tc) (tc_type tc) (tc_function_name tc)
                 (tc_function_arguments tc)) tcs)"
  by (induction tcs) simp_all

lemma filter_message_fc_assistant_tool_turn:
  "\<exists>a. filter_message_fc (assistant_tool_turn rm) = Inr a"
  by (simp add: filter_message_fc_def assistant_tool_turn_def reshape_objs py_get_def domIff
      opt_str_def split: option.splits)


lemma tools_try_body_direct:
  assumes "create req1 = Inr cc" and "choices cc = rm # rest" and "\<not> truthy (tool_calls rm)"
  shows "tools_try_body available create h1 req1 m
     = (Inr (content rm), h1 @ [assistant_turn (content rm)], [req1])"
  using assms by (simp add: tools_try_body_def first_choice_def)

lemma filter_fc_after_tools:
  assumes "filter_messages_for_api_fc h1 = Inr ms"
  shows "\<exists>ms2. filter_messages_for_api_fc
            (h1 @ assistant_tool_turn rm # served_turns available k tcs) = Inr ms2"
proof -
  obtain a where a: "filter_message_fc (assistant_tool_turn rm) = Inr a"
    using filter_message_fc_assistant_tool_turn by blast
  have "filter_messages_for_api_fc [assistant_tool_turn rm] = Inr [a]"
    by (simp add: filter_messages_for_api_fc_def a)
  from filter_fc_append [OF this filter_fc_served_turns [of available k tcs]]
  have "filter_messages_for_api_fc (assistant_tool_turn rm # served_turns available k tcs)
      = Inr (a # served_turns available k tcs)" by simp
  from filter_fc_append [OF assms this] show ?thesis by blast
qed

lemma tools_try_body_tools:
  assumes "create rq = Inr cc" and "choices cc = rm # rest" and "truthy (tool_calls rm)"
    and "filter_messages_for_api_fc
            (hh @ assistant_tool_turn rm # served_turns available 0 (the (tool_calls rm))) = Inr ms2"
  shows "tools_try_body available create hh rq m
     = (let h3 = hh @ assistant_tool_turn rm # served_turns available 0 (the (tool_calls rm));
            req2 = second_request ms2 m
        in case create req2 of
             Inl e \<Rightarrow> (Inl e, h3, [rq, req2])
           | Inr final_completion \<Rightarrow>
               (case first_choice final_completion of
                  Inl e \<Rightarrow> (Inl e, h3, [rq, req2])
                | Inr final_message \<Rightarrow>
                    (Inr (content final_message),
                     h3 @ [assistant_turn (content final_message)], [rq, req2])))"
  using assms
  by (simp add: tools_try_body_def first_choice_def execute_tool_calls_eq Let_def
      split: sum.splits)

lemma tools_try_body_length:
  "length (snd (snd (tools_try_body available create h1 req1 m))) \<le> 2"
  by (simp add: tools_try_body_def execute_tool_calls_eq Let_def
      split: sum.splits prod.splits option.splits)


lemma run_direct:
  assumes "filter_messages_for_api_fc (h @ [user_turn q]) = Inr ms"
    and "create (first_request ms m) = Inr cc" and "choices cc = rm # rest"
    and "\<not> truthy (tool_calls rm)"
  shows "run_conversation_with_tools available (Some create) h q m
     = (Returned (content rm), h @ [user_turn q, assistant_turn (content rm)],
        [first_request ms m])"
  using assms by (simp add: run_conversation_with_tools_def tools_try_body_direct)

lemma run_tools:
  assumes f: "filter_messages_for_api_fc (h @ [user_turn q]) = Inr ms"
    and c: "create (first_request ms m) = Inr cc" and ch: "choices cc = rm # rest"
    and t: "truthy (tool_calls rm)"
  shows "\<exists>ms2. filter_messages_for_api_fc
            (h @ [user_turn q, assistant_tool_turn rm]
               @ served_turns available 0 (the (tool_calls rm))) = Inr ms2 \<and>
          ((\<exists>reply. run_conversation_with_tools available (Some create) h q m
              = (Returned reply,
                 h @ [user_turn q, assistant_tool_turn rm]
                   @ served_turns available 0 (the (tool_calls rm)) @ [assistant_turn reply],
                 [first_request ms m, second_request ms2 m])) \<or>
           (\<exists>out. run_conversation_with_tools available (Some create) h q m
              = (out,
                 h @ [user_turn q, assistant_tool_turn rm]
                   @ served_turns available 0 (the (tool_calls rm)),
                 [first_request ms m, second_request ms2 m]) \<and>
              (\<forall>r. out \<noteq> Returned (Some r))))"
proof -
  let ?h1 = "h @ [user_turn q]"
  let ?ts = "served_turns available 0 (the (tool_calls rm))"
  obtain ms2 where ms2: "filter_messages_for_api_fc (?h1 @ assistant_tool_turn rm # ?ts) = Inr ms2"
    using filter_fc_after_tools [OF f] by blast
  note body = tools_try_body_tools
    [where create = create and rq = "first_request ms m" and hh = "?h1" and m = m,
      OF c ch t ms2]
  have "(\<exists>reply. run_conversation_with_tools available (Some create) h q m
              = (Returned reply, (?h1 @ assistant_tool_turn rm # ?ts) @ [assistant_turn reply],
                 [first_request ms m, second_request ms2 m])) \<or>
           (\<exists>out. run_conversation_with_tools available (Some create) h q m
              = (out, ?h1 @ assistant_tool_turn rm # ?ts,
                 [first_request ms m, second_request ms2 m]) \<and>
              (\<forall>r. out \<noteq> Returned (Some r)))"
    by (simp add: run_conversation_with_tools_def f body Let_def
        split: sum.splits option.splits)
  with ms2 show ?thesis by auto
qed

lemma run_length_sent:
  assumes "run_conversation_with_tools available client h q m = (out, h', sent)"
  shows "length sent \<le> 2"
proof -
  have "length (snd (snd (run_conversation_with_tools available client h q m))) \<le> 2"
    using tools_try_body_length
    by (auto simp: run_conversation_with_tools_def Let_def
        split: option.splits sum.splits prod.splits) (metis snd_conv)+
  with assms show ?thesis by simp
qed

lemma run_some_reply:
  assumes "run_conversation_with_tools available client h q m = (Returned (Some r), h', sent)"
  shows "\<exists>create ms cc rm rest. client = Some create
      \<and> filter_messages_for_api_fc (h @ [user_turn q]) = Inr ms
      \<and> create (first_request ms m) = Inr cc \<and> choices cc = rm # rest"
  using assms
  by (auto simp: run_conversation_with_tools_def tools_try_body_def first_choice_def Let_def
      split: option.splits sum.splits prod.splits list.splits)


lemma filter_message_fc_system_turn: "filter_message_fc (system_turn p) = Inr (system_turn p)"
  by (simp add: filter_message_fc_def system_turn_def py_get_def domIff)

lemma filter_message_ch_system_turn: "filter_message_ch (system_turn p) = Inr (system_turn p)"
  by (simp add: filter_message_ch_def system_turn_def py_get_def domIff)

lemma filter_fc_example:
  "filter_messages_for_api_fc (example_history @ [user_turn q])
     = Inr (example_history @ [user_turn q])"
  by (simp add: filter_messages_for_api_fc_def example_history_def filter_message_fc_user_turn
      filter_message_fc_system_turn)

lemma filter_ch_example:
  "filter_messages_for_api_ch (example_history @ [user_turn q])
     = Inr (example_history @ [user_turn q])"
  by (simp add: filter_messages_for_api_ch_def example_history_def filter_message_ch_user_turn
      filter_message_ch_system_turn)

lemma run_tools_reply:
  assumes f: "filter_messages_for_api_fc (h @ [user_turn q]) = Inr ms"
    and c: "create (first_request ms m) = Inr cc" and ch: "choices cc = rm # rest"
    and t: "truthy (tool_calls rm)"
    and f2: "filter_messages_for_api_fc
            (h @ [user_turn q, assistant_tool_turn rm]
               @ served_turns available 0 (the (tool_calls rm))) = Inr ms2"
    and c2: "create (second_request ms2 m) = Inr fc" and ch2: "choices fc = fm # rest2"
  shows "run_conversation_with_tools available (Some create) h q m
     = (Returned (content fm),
        h @ [user_turn q, assistant_tool_turn rm]
          @ served_turns available 0 (the (tool_calls rm)) @ [assistant_turn (content fm)],
        [first_request ms m, second_request ms2 m])"
proof -
  from f2 have f2': "filter_messages_for_api_fc
     ((h @ [user_turn q]) @ assistant_tool_turn rm
        # served_turns available 0 (the (tool_calls rm))) = Inr ms2" by simp
  note body = tools_try_body_tools
    [where create = create and rq = "first_request ms m" and hh = "h @ [user_turn q]" and m = m,
      OF c ch t f2']
  show ?thesis
    by (simp add: run_conversation_with_tools_def f body Let_def c2 ch2 first_choice_def)
qed


lemma served_turn_keys:
  "served_turn available k tc ''role'' = Some (PyStr ''tool'')"
  "served_turn available k tc ''tool_call_id'' = Some (PyStr (tc_id tc))"
  "served_turn available k tc ''name'' = Some (PyStr (tc_function_name tc))"
  "served_turn available k tc ''content''
     = Some (PyStr (case available (tc_function_name tc) of
          None \<Rightarrow> ''Error: Unknown function '' @ apostrophe @ tc_function_name tc @ apostrophe
        | Some f \<Rightarrow> (case f k of Inr s \<Rightarrow> s | Inl e \<Rightarrow> ''Error: '' @ str_exn e)))"
  by (simp_all add: served_turn_def tool_turn_def)

lemma truthy_Some: "truthy (Some xs) \<longleftrightarrow> xs \<noteq> []"
  by (cases xs) (simp_all add: truthy_def)



lemma tool_client_first:
  "tool_client (first_request ms m)
     = Inr \<lparr>choices = [\<lparr>content = None, tool_calls = Some requested_tool_calls\<rparr>]\<rparr>"
  by (simp add: tool_client_def first_request_def)

lemma tool_client_second:
  "tool_client (second_request ms m)
     = Inr \<lparr>choices = [\<lparr>content = Some ''It is noon.'', tool_calls = None\<rparr>]\<rparr>"
  by (simp add: tool_client_def second_request_def)


lemma run_direct_client_example:
  "run_conversation_with_tools available (Some direct_client)
     example_history ''What is a dict?'' DEFAULT_MODEL
   = (Returned (Some ''A dict maps keys to values.''),
      example_history @ [user_turn ''What is a dict?'',
        assistant_turn (Some ''A dict maps keys to values.'')],
      [first_request (example_history @ [user_turn ''What is a dict?'']) DEFAULT_MODEL])"
proof -
  let ?rm = "\<lparr>content = Some ''A dict maps keys to values.'',
     tool_calls = None :: sdk_tool_call list option\<rparr>"
  have c: "direct_client (first_request (example_history @ [user_turn ''What is a dict?'']) DEFAULT_MODEL)
      = Inr \<lparr>choices = [?rm]\<rparr>"
    by (simp add: direct_client_def)
  have ch: "choices \<lparr>choices = [?rm]\<rparr> = ?rm # []" by simp
  have t: "\<not> truthy (tool_calls ?rm)" by (simp add: truthy_def)
  from run_direct [where create = direct_client, OF filter_fc_example c ch t]
  show ?thesis by simp
qed


text \<open>
  C4. \<open>run_conversation_with_tools\<close> never sends more than two requests. Whenever
  the first response arrives with a message, it sends exactly one request if the message
  carries no tool call (\<open>tool_calls\<close> is null or empty), and exactly two if it carries
  one or more, however many: the first request and a second one with
  \<open>tool_choice = "none"\<close>. An invocation that returns a reply that is not null had such
  a first response.
\<close>

theorem network_calls:
  assumes run: "run_conversation_with_tools available client h q m = (out, h', sent)"
  shows "length sent \<le> 2 \<and>
    (client = Some create \<and> filter_messages_for_api_fc (h @ [user_turn q]) = Inr ms
       \<and> create (first_request ms m) = Inr cc \<and> choices cc = rm # rest \<longrightarrow>
       (if truthy (tool_calls rm)
        then length sent = 2 \<and> sent ! 0 = first_request ms m
               \<and> tool_choice (sent ! 1) = Some ''none''
        else sent = [first_request ms m])) \<and>
    (out = Returned (Some r) \<longrightarrow>
       (\<exists>create ms cc rm rest. client = Some create
          \<and> filter_messages_for_api_fc (h @ [user_turn q]) = Inr ms
          \<and> create (first_request ms m) = Inr cc \<and> choices cc = rm # rest))"
proof (intro conjI impI)
  show "length sent \<le> 2" by (rule run_length_sent [OF run])
next
  assume a: "client = Some create \<and> filter_messages_for_api_fc (h @ [user_turn q]) = Inr ms
       \<and> create (first_request ms m) = Inr cc \<and> choices cc = rm # rest"
  then have f: "filter_messages_for_api_fc (h @ [user_turn q]) = Inr ms"
    and c: "create (first_request ms m) = Inr cc" and ch: "choices cc = rm # rest"
    and cl: "client = Some create" by blast+
  show "if truthy (tool_calls rm)
        then length sent = 2 \<and> sent ! 0 = first_request ms m
               \<and> tool_choice (sent ! 1) = Some ''none''
        else sent = [first_request ms m]"
  proof (cases "truthy (tool_calls rm)")
    case True
    from run_tools [where create = create and h = h and q = q and ms = ms and m = m
          and available = available, OF f c ch True] run cl
    show ?thesis by (auto simp: True second_request_def)
  next
    case False
    from run_direct [where create = create and h = h and q = q and ms = ms and m = m
          and available = available, OF f c ch False] run cl
    show ?thesis by (simp add: False)
  qed
next
  assume "out = Returned (Some r)"
  with run show "\<exists>create ms cc rm rest. client = Some create
          \<and> filter_messages_for_api_fc (h @ [user_turn q]) = Inr ms
          \<and> create (first_request ms m) = Inr cc \<and> choices cc = rm # rest"
    using run_some_reply by blast
qed

theorem network_calls_witness:
  "length (snd (snd (run_conversation_with_tools (AVAILABLE_FUNCTIONS flaky_clock)
      (Some tool_client) example_history ''What time is it?'' DEFAULT_MODEL))) = 2 \<and>
   tool_choice (snd (snd (run_conversation_with_tools (AVAILABLE_FUNCTIONS flaky_clock)
      (Some tool_client) example_history ''What time is it?'' DEFAULT_MODEL)) ! 1)
     = Some ''none'' \<and>
   snd (snd (run_conversation_with_tools (AVAILABLE_FUNCTIONS flaky_clock)
      (Some direct_client) example_history ''What is a dict?'' DEFAULT_MODEL))
     = [first_request (example_history @ [user_turn ''What is a dict?'']) DEFAULT_MODEL] \<and>
   (\<exists>create ms cc rm rest. Some direct_client = Some create
      \<and> filter_messages_for_api_fc (example_history @ [user_turn ''What is a dict?'']) = Inr ms
      \<and> create (first_request ms DEFAULT_MODEL) = Inr cc \<and> choices cc = rm # rest)"
proof -
  let ?R = "run_conversation_with_tools (AVAILABLE_FUNCTIONS flaky_clock)
      (Some tool_client) example_history ''What time is it?'' DEFAULT_MODEL"
  let ?D = "run_conversation_with_tools (AVAILABLE_FUNCTIONS flaky_clock)
      (Some direct_client) example_history ''What is a dict?'' DEFAULT_MODEL"
  let ?rm = "\<lparr>content = None, tool_calls = Some requested_tool_calls\<rparr>"
  let ?dm = "\<lparr>content = Some ''A dict maps keys to values.'',
     tool_calls = None :: sdk_tool_call list option\<rparr>"
  have R: "?R = (fst ?R, fst (snd ?R), snd (snd ?R))" by simp
  have D: "?D = (fst ?D, fst (snd ?D), snd (snd ?D))" by simp
  have t: "truthy (tool_calls ?rm)" by (simp add: truthy_def requested_tool_calls_def)
  have nt: "\<not> truthy (tool_calls ?dm)" by (simp add: truthy_def)
  have dc: "direct_client (first_request (example_history @ [user_turn ''What is a dict?'']) DEFAULT_MODEL)
      = Inr \<lparr>choices = [?dm]\<rparr>"
    by (simp add: direct_client_def)
  have dout: "fst ?D = Returned (Some ''A dict maps keys to values.'')"
    by (simp add: run_direct_client_example)
  from network_calls [where create = tool_client and rm = ?rm and rest = "[]"
      and cc = "\<lparr>choices = [?rm]\<rparr>"
      and ms = "example_history @ [user_turn ''What time is it?'']", OF R]
    filter_fc_example [of "''What time is it?''"] tool_client_first t
  have 1: "length (snd (snd ?R)) = 2 \<and> tool_choice (snd (snd ?R) ! 1) = Some ''none''"
    by simp
  from network_calls [where create = direct_client and rm = ?dm and rest = "[]"
      and cc = "\<lparr>choices = [?dm]\<rparr>"
      and ms = "example_history @ [user_turn ''What is a dict?'']"
      and r = "''A dict maps keys to values.''", OF D]
    filter_fc_example [of "''What is a dict?''"] dc nt dout
  have 2: "snd (snd ?D)
     = [first_request (example_history @ [user_turn ''What is a dict?'']) DEFAULT_MODEL] \<and>
    (\<exists>create ms cc rm rest. Some direct_client = Some create
      \<and> filter_messages_for_api_fc (example_history @ [user_turn ''What is a dict?'']) = Inr ms
      \<and> create (first_request ms DEFAULT_MODEL) = Inr cc \<and> choices cc = rm # rest)"
    by simp
  from 1 2 show ?thesis by blast
qed



text \<open>
  C5. When the first response of \<open>run_conversation_with_tools\<close> requests the tool
  calls \<open>tcs\<close> (one or more), then after the user turn and the assistant turn the
  history holds exactly one tool turn per request, in order, with the request's id and
  function name; its content is the function's result when the name is registered and
  the call returns, \<open>Error: \<close> followed by the exception's text when the call raises,
  and \<open>Error: Unknown function '<name>'\<close> when the name is not registered. Nothing
  follows the tool turns but at most the final assistant turn. No exception of a tool
  leaves the loop: the second request is sent in every case, over the normalized history
  up to the last tool turn, and when it is answered with a message the driver returns
  that message's content.
\<close>

theorem tool_calls_served:
  assumes f: "filter_messages_for_api_fc (h @ [user_turn q]) = Inr ms"
    and c: "create (first_request ms m) = Inr cc" and ch: "choices cc = rm # rest"
    and tc: "tool_calls rm = Some tcs" and ne: "tcs \<noteq> []"
    and run: "run_conversation_with_tools available (Some create) h q m = (out, h', sent)"
  shows "length h + 2 + length tcs \<le> length h' \<and>
     take (length h + 2) h' = h @ [user_turn q, assistant_tool_turn rm] \<and>
     (\<forall>i < length tcs.
        (h' ! (length h + 2 + i)) ''role'' = Some (PyStr ''tool'') \<and>
        (h' ! (length h + 2 + i)) ''tool_call_id'' = Some (PyStr (tc_id (tcs ! i))) \<and>
        (h' ! (length h + 2 + i)) ''name'' = Some (PyStr (tc_function_name (tcs ! i))) \<and>
        (available (tc_function_name (tcs ! i)) = None \<longrightarrow>
           (h' ! (length h + 2 + i)) ''content''
             = Some (PyStr (''Error: Unknown function '' @ apostrophe
                      @ tc_function_name (tcs ! i) @ apostrophe))) \<and>
        (\<forall>fn s. available (tc_function_name (tcs ! i)) = Some fn \<and> fn i = Inr s \<longrightarrow>
           (h' ! (length h + 2 + i)) ''content'' = Some (PyStr s)) \<and>
        (\<forall>fn e. available (tc_function_name (tcs ! i)) = Some fn \<and> fn i = Inl e \<longrightarrow>
           (h' ! (length h + 2 + i)) ''content'' = Some (PyStr (''Error: '' @ str_exn e)))) \<and>
     (drop (length h + 2 + length tcs) h' = [] \<or>
      (\<exists>reply. drop (length h + 2 + length tcs) h' = [assistant_turn reply])) \<and>
     (\<exists>ms2. filter_messages_for_api_fc (take (length h + 2 + length tcs) h') = Inr ms2 \<and>
         sent = [first_request ms m, second_request ms2 m] \<and>
         (\<forall>fc fm rest2. create (second_request ms2 m) = Inr fc \<and> choices fc = fm # rest2
            \<longrightarrow> out = Returned (content fm)))"
proof -
  let ?ts = "served_turns available 0 tcs"
  let ?h3 = "h @ [user_turn q, assistant_tool_turn rm] @ ?ts"
  have t: "truthy (tool_calls rm)" using tc ne by (simp add: truthy_Some)
  have len: "length ?ts = length tcs" by (rule length_served_turns)
  from run_tools [where create = create and h = h and q = q and ms = ms and m = m
          and available = available, OF f c ch t] run tc
  obtain ms2 tail where f2: "filter_messages_for_api_fc ?h3 = Inr ms2"
    and h': "h' = ?h3 @ tail" and tail: "tail = [] \<or> (\<exists>reply. tail = [assistant_turn reply])"
    and sent: "sent = [first_request ms m, second_request ms2 m]"
    by auto
  have l3: "length ?h3 = length h + 2 + length tcs" using len by simp
  have tk: "take (length h + 2 + length tcs) h' = ?h3" unfolding h' using l3 by simp
  have dr: "drop (length h + 2 + length tcs) h' = tail" unfolding h' using l3 by simp
  have nth: "h' ! (length h + 2 + i) = served_turn available i (tcs ! i)"
    if "i < length tcs" for i
  proof -
    have "h' ! (length h + 2 + i) = (?ts @ tail) ! i"
      unfolding h' by (simp add: nth_append)
    also have "\<dots> = ?ts ! i" using that len by (simp add: nth_append)
    also have "\<dots> = served_turn available i (tcs ! i)"
      using nth_served_turns [OF that, of available 0] by simp
    finally show ?thesis .
  qed
  have out: "out = Returned (content fm)"
    if "create (second_request ms2 m) = Inr fc" and "choices fc = fm # rest2" for fc fm rest2
  proof -
    from f2 tc have "filter_messages_for_api_fc
            (h @ [user_turn q, assistant_tool_turn rm]
               @ served_turns available 0 (the (tool_calls rm))) = Inr ms2" by simp
    from run_tools_reply [where create = create and available = available,
        OF f c ch t this that] run
    show ?thesis by simp
  qed
  have 1: "length h + 2 + length tcs \<le> length h'" unfolding h' using len by simp
  have 2: "take (length h + 2) h' = h @ [user_turn q, assistant_tool_turn rm]"
    unfolding h' by simp
  have 3: "\<forall>i < length tcs.
        (h' ! (length h + 2 + i)) ''role'' = Some (PyStr ''tool'') \<and>
        (h' ! (length h + 2 + i)) ''tool_call_id'' = Some (PyStr (tc_id (tcs ! i))) \<and>
        (h' ! (length h + 2 + i)) ''name'' = Some (PyStr (tc_function_name (tcs ! i))) \<and>
        (available (tc_function_name (tcs ! i)) = None \<longrightarrow>
           (h' ! (length h + 2 + i)) ''content''
             = Some (PyStr (''Error: Unknown function '' @ apostrophe
                      @ tc_function_name (tcs ! i) @ apostrophe))) \<and>
        (\<forall>fn s. available (tc_function_name (tcs ! i)) = Some fn \<and> fn i = Inr s \<longrightarrow>
           (h' ! (length h + 2 + i)) ''content'' = Some (PyStr s)) \<and>
        (\<forall>fn e. available (tc_function_name (tcs ! i)) = Some fn \<and> fn i = Inl e \<longrightarrow>
           (h' ! (length h + 2 + i)) ''content'' = Some (PyStr (''Error: '' @ str_exn e)))"
  proof (intro allI impI)
    fix i
    assume i: "i < length tcs"
    show "(h' ! (length h + 2 + i)) ''role'' = Some (PyStr ''tool'') \<and>
        (h' ! (length h + 2 + i)) ''tool_call_id'' = Some (PyStr (tc_id (tcs ! i))) \<and>
        (h' ! (length h + 2 + i)) ''name'' = Some (PyStr (tc_function_name (tcs ! i))) \<and>
        (available (tc_function_name (tcs ! i)) = None \<longrightarrow>
           (h' ! (length h + 2 + i)) ''content''
             = Some (PyStr (''Error: Unknown function '' @ apostrophe
                      @ tc_function_name (tcs ! i) @ apostrophe))) \<and>
        (\<forall>fn s. available (tc_function_name (tcs ! i)) = Some fn \<and> fn i = Inr s \<longrightarrow>
           (h' ! (length h + 2 + i)) ''content'' = Some (PyStr s)) \<and>
        (\<forall>fn e. available (tc_function_name (tcs ! i)) = Some fn \<and> fn i = Inl e \<longrightarrow>
           (h' ! (length h + 2 + i)) ''content'' = Some (PyStr (''Error: '' @ str_exn e)))"
      unfolding nth [OF i] by (simp add: served_turn_keys)
  qed
  have 4: "drop (length h + 2 + length tcs) h' = [] \<or>
      (\<exists>reply. drop (length h + 2 + length tcs) h' = [assistant_turn reply])"
    using tail dr by simp
  have 5: "\<exists>ms2. filter_messages_for_api_fc (take (length h + 2 + length tcs) h') = Inr ms2 \<and>
         sent = [first_request ms m, second_request ms2 m] \<and>
         (\<forall>fc fm rest2. create (second_request ms2 m) = Inr fc \<and> choices fc = fm # rest2
            \<longrightarrow> out = Returned (content fm))"
    using f2 sent out tk by auto
  from 1 2 3 4 5 show ?thesis by blast
qed

theorem tool_calls_served_witness:
  "(fst (snd (run_conversation_with_tools (AVAILABLE_FUNCTIONS flaky_clock)
      (Some tool_client) example_history ''What time is it?'' DEFAULT_MODEL)) ! 3) ''content''
     = Some (PyStr ''2026-11-04 12:00:00'') \<and>
   (fst (snd (run_conversation_with_tools (AVAILABLE_FUNCTIONS flaky_clock)
      (Some tool_client) example_history ''What time is it?'' DEFAULT_MODEL)) ! 4) ''content''
     = Some (PyStr ''Error: clock failure'') \<and>
   (fst (snd (run_conversation_with_tools (AVAILABLE_FUNCTIONS flaky_clock)
      (Some tool_client) example_history ''What time is it?'' DEFAULT_MODEL)) ! 5) ''content''
     = Some (PyStr (''Error: Unknown function '' @ apostrophe @ ''delete_universe'' @ apostrophe)) \<and>
   length (snd (snd (run_conversation_with_tools (AVAILABLE_FUNCTIONS flaky_clock)
      (Some tool_client) example_history ''What time is it?'' DEFAULT_MODEL))) = 2 \<and>
   fst (run_conversation_with_tools (AVAILABLE_FUNCTIONS flaky_clock)
      (Some tool_client) example_history ''What time is it?'' DEFAULT_MODEL)
     = Returned (Some ''It is noon.'')"
proof -
  let ?R = "run_conversation_with_tools (AVAILABLE_FUNCTIONS flaky_clock)
      (Some tool_client) example_history ''What time is it?'' DEFAULT_MODEL"
  let ?rm = "\<lparr>content = None, tool_calls = Some requested_tool_calls\<rparr>"
  let ?h = "fst (snd ?R)"
  have R: "?R = (fst ?R, ?h, snd (snd ?R))" by simp
  have ch: "choices \<lparr>choices = [?rm]\<rparr> = ?rm # []" by simp
  have tc: "tool_calls ?rm = Some requested_tool_calls" by simp
  have ne: "requested_tool_calls \<noteq> []" by (simp add: requested_tool_calls_def)
  note w = tool_calls_served [where create = tool_client
      and available = "AVAILABLE_FUNCTIONS flaky_clock",
      OF filter_fc_example tool_client_first ch tc ne R]
  have l: "length example_history = 1" "length requested_tool_calls = 3"
    by (simp_all add: example_history_def requested_tool_calls_def)
  have known: "AVAILABLE_FUNCTIONS flaky_clock ''get_current_datetime'' = Some flaky_clock"
    and unknown: "AVAILABLE_FUNCTIONS flaky_clock ''delete_universe'' = None"
    by (simp_all add: AVAILABLE_FUNCTIONS_def)
  have names: "tc_function_name (requested_tool_calls ! 0) = ''get_current_datetime''"
    "tc_function_name (requested_tool_calls ! 1) = ''get_current_datetime''"
    "tc_function_name (requested_tool_calls ! 2) = ''delete_universe''"
    by (simp_all add: requested_tool_calls_def example_tool_call_def retry_tool_call_def
        unknown_tool_call_def)
  have clock: "flaky_clock 0 = Inr ''2026-11-04 12:00:00''"
    "flaky_clock 1 = Inl (Exn RuntimeError ''clock failure'')"
    by (simp_all add: flaky_clock_def)
  from w have all: "\<forall>i < 3.
        (AVAILABLE_FUNCTIONS flaky_clock (tc_function_name (requested_tool_calls ! i)) = None \<longrightarrow>
           (?h ! (1 + 2 + i)) ''content''
             = Some (PyStr (''Error: Unknown function '' @ apostrophe
                      @ tc_function_name (requested_tool_calls ! i) @ apostrophe))) \<and>
        (\<forall>fn s. AVAILABLE_FUNCTIONS flaky_clock (tc_function_name (requested_tool_calls ! i)) = Some fn
            \<and> fn i = Inr s \<longrightarrow> (?h ! (1 + 2 + i)) ''content'' = Some (PyStr s)) \<and>
        (\<forall>fn e. AVAILABLE_FUNCTIONS flaky_clock (tc_function_name (requested_tool_calls ! i)) = Some fn
            \<and> fn i = Inl e \<longrightarrow> (?h ! (1 + 2 + i)) ''content'' = Some (PyStr (''Error: '' @ str_exn e)))"
    unfolding l by blast
  have 3: "(?h ! 3) ''content'' = Some (PyStr ''2026-11-04 12:00:00'')"
    using all [rule_format, of 0] known clock(1) names(1) by (simp add: eval_nat_numeral)
  have 4: "(?h ! 4) ''content'' = Some (PyStr ''Error: clock failure'')"
    using all [rule_format, of 1] known clock(2) names(2) by (simp add: eval_nat_numeral)
  have 5: "(?h ! 5) ''content''
      = Some (PyStr (''Error: Unknown function '' @ apostrophe @ ''delete_universe'' @ apostrophe))"
    using all [rule_format, of 2] unknown names(3) by (simp add: eval_nat_numeral)
  from w obtain ms2 where s: "snd (snd ?R) = [first_request (example_history @ [user_turn ''What time is it?'']) DEFAULT_MODEL,
       second_request ms2 DEFAULT_MODEL]"
    and o: "\<forall>fc fm rest2. tool_client (second_request ms2 DEFAULT_MODEL) = Inr fc
        \<and> choices fc = fm # rest2 \<longrightarrow> fst ?R = Returned (content fm)"
    by blast
  have 6: "length (snd (snd ?R)) = 2" using s by simp
  have 7: "fst ?R = Returned (Some ''It is noon.'')"
    using o [rule_format, of "\<lparr>choices = [\<lparr>content = Some ''It is noon.'', tool_calls = None\<rparr>]\<rparr>"
        "\<lparr>content = Some ''It is noon.'', tool_calls = None\<rparr>" "[]"]
    by (simp add: tool_client_second)
  from 3 4 5 6 7 show ?thesis by blast
qed


lemma chat_none: "chat_with_history None h q m = (Returned None, h, [])"
  by (simp add: chat_with_history_def)

lemma chat_reply:
  assumes "filter_messages_for_api_ch (h @ [user_turn q]) = Inr ms"
    and "create (chat_request ms m) = Inr cc" and "choices cc = msg # rest"
  shows "chat_with_history (Some create) h q m
     = (Returned (content msg), h @ [user_turn q, assistant_turn (content msg)],
        [chat_request ms m])"
  using assms by (simp add: chat_with_history_def first_choice_def)

lemma chat_error:
  assumes "filter_messages_for_api_ch (h @ [user_turn q]) = Inr ms"
    and "create (chat_request ms m) = Inl e"
  shows "chat_with_history (Some create) h q m
     = (if isinstance e APIError then Returned None else Raised rate_limit_name_error,
        h @ [user_turn q], [chat_request ms m])"
  using assms
  by (simp add: chat_with_history_def except_api_handlers [OF chat_history_globals_def])

lemma chat_returned:
  assumes "chat_with_history client h q m = (Returned reply, h', sent)"
  shows "(h' = h @ [user_turn q, assistant_turn reply] \<and> length sent = 1) \<or>
         (reply = None \<and> (h' = h \<and> sent = [] \<or> h' = h @ [user_turn q] \<and> length sent = 1))"
  using assms
  by (auto simp: chat_with_history_def Let_def split: option.splits sum.splits)

text \<open>
  C2 (amended). For every history and user text, whenever \<open>chat_with_history\<close> returns
  to its caller it returns either a reply with the conversation grown by exactly 2 (the
  user turn, then an assistant turn holding that reply), the reply being null when the
  model's message has a null content, or null with the conversation unchanged (no client,
  nothing sent) or grown by the user turn alone (one request sent). It returns so when
  there is no client, when the API answers with a message, and when the API call raises
  an \<open>APIError\<close> (rate limiting included).
\<close>

theorem chat_turn:
  "(chat_with_history client h q m = (Returned reply, h', sent) \<longrightarrow>
      (h' = h @ [user_turn q, assistant_turn reply] \<and> length h' = length h + 2
         \<and> length sent = 1) \<or>
      (reply = None \<and>
         (h' = h \<and> sent = [] \<or> h' = h @ [user_turn q] \<and> length sent = 1))) \<and>
   chat_with_history None h q m = (Returned None, h, []) \<and>
   (filter_messages_for_api_ch (h @ [user_turn q]) = Inr ms
      \<and> create (chat_request ms m) = Inr cc \<and> choices cc = msg # rest \<longrightarrow>
      chat_with_history (Some create) h q m
        = (Returned (content msg), h @ [user_turn q, assistant_turn (content msg)],
           [chat_request ms m])) \<and>
   (filter_messages_for_api_ch (h @ [user_turn q]) = Inr ms
      \<and> create (chat_request ms m) = Inl e \<and> isinstance e APIError \<longrightarrow>
      chat_with_history (Some create) h q m
        = (Returned None, h @ [user_turn q], [chat_request ms m]))"
proof (intro conjI impI)
  assume "chat_with_history client h q m = (Returned reply, h', sent)"
  from chat_returned [OF this]
  show "(h' = h @ [user_turn q, assistant_turn reply] \<and> length h' = length h + 2
         \<and> length sent = 1) \<or>
      (reply = None \<and>
         (h' = h \<and> sent = [] \<or> h' = h @ [user_turn q] \<and> length sent = 1))"
    by auto
next
  show "chat_with_history None h q m = (Returned None, h, [])" by (rule chat_none)
next
  assume "filter_messages_for_api_ch (h @ [user_turn q]) = Inr ms
      \<and> create (chat_request ms m) = Inr cc \<and> choices cc = msg # rest"
  then show "chat_with_history (Some create) h q m
        = (Returned (content msg), h @ [user_turn q, assistant_turn (content msg)],
           [chat_request ms m])"
    using chat_reply by blast
next
  assume "filter_messages_for_api_ch (h @ [user_turn q]) = Inr ms
      \<and> create (chat_request ms m) = Inl e \<and> isinstance e APIError"
  then show "chat_with_history (Some create) h q m
        = (Returned None, h @ [user_turn q], [chat_request ms m])"
    using chat_error by auto
qed

theorem chat_turn_witness:
  "chat_with_history (Some direct_client) example_history ''What is a dict?'' DEFAULT_MODEL
     = (Returned (Some ''A dict maps keys to values.''),
        example_history @ [user_turn ''What is a dict?'',
          assistant_turn (Some ''A dict maps keys to values.'')],
        [chat_request (example_history @ [user_turn ''What is a dict?'']) DEFAULT_MODEL]) \<and>
   chat_with_history (Some rate_limited_client) example_history ''What is a dict?'' DEFAULT_MODEL
     = (Returned None, example_history @ [user_turn ''What is a dict?''],
        [chat_request (example_history @ [user_turn ''What is a dict?'']) DEFAULT_MODEL]) \<and>
   chat_with_history None example_history ''What is a dict?'' DEFAULT_MODEL
     = (Returned None, example_history, []) \<and>
   length (example_history @ [user_turn ''What is a dict?'',
          assistant_turn (Some ''A dict maps keys to values.'')]) = length example_history + 2"
proof -
  let ?q = "''What is a dict?''"
  let ?dm = "\<lparr>content = Some ''A dict maps keys to values.'',
     tool_calls = None :: sdk_tool_call list option\<rparr>"
  let ?ms = "example_history @ [user_turn ?q]"
  have d: "direct_client (chat_request ?ms DEFAULT_MODEL) = Inr \<lparr>choices = [?dm]\<rparr>"
    by (simp add: direct_client_def)
  have r: "rate_limited_client (chat_request ?ms DEFAULT_MODEL)
      = Inl (Exn RateLimitError ''Error code: 429'')"
    by (simp add: rate_limited_client_def)
  have i: "isinstance (Exn RateLimitError ''Error code: 429'') APIError"
    by (simp add: isinstance_def)
  from chat_turn [where create = direct_client and h = example_history and q = ?q
      and m = DEFAULT_MODEL and ms = ?ms and cc = "\<lparr>choices = [?dm]\<rparr>" and msg = ?dm
      and rest = "[]" and client = "Some direct_client"
      and reply = "Some ''A dict maps keys to values.''"
      and h' = "example_history @ [user_turn ?q, assistant_turn (Some ''A dict maps keys to values.'')]"
      and sent = "[chat_request ?ms DEFAULT_MODEL]"]
    chat_turn [where create = rate_limited_client and h = example_history and q = ?q
      and m = DEFAULT_MODEL and ms = ?ms and e = "Exn RateLimitError ''Error code: 429''"]
    filter_ch_example [of ?q] d r i
  show ?thesis by simp
qed

text \<open>
  C2 as stated fails when the model's message has a null content: the reply returned is
  null, and the conversation is longer by the user turn and an assistant turn.
\<close>

theorem chat_turn_counterexample:
  "fst (chat_with_history (Some null_client) example_history ''hi'' DEFAULT_MODEL)
     = Returned None \<and>
   fst (snd (chat_with_history (Some null_client) example_history ''hi'' DEFAULT_MODEL))
     = example_history @ [user_turn ''hi'', assistant_turn None] \<and>
   length (fst (snd (chat_with_history (Some null_client) example_history ''hi'' DEFAULT_MODEL)))
     = length example_history + 2 \<and>
   fst (snd (chat_with_history (Some null_client) example_history ''hi'' DEFAULT_MODEL))
     \<noteq> example_history \<and>
   fst (snd (chat_with_history (Some null_client) example_history ''hi'' DEFAULT_MODEL))
     \<noteq> example_history @ [user_turn ''hi'']"
proof -
  have "null_client (chat_request (example_history @ [user_turn ''hi'']) DEFAULT_MODEL)
      = Inr \<lparr>choices = [\<lparr>content = None, tool_calls = None\<rparr>]\<rparr>"
    by (simp add: null_client_def)
  from chat_reply [where create = null_client and rest = "[]", OF filter_ch_example this]
  show ?thesis by simp
qed

text \<open>
  C9. When the credential variable is missing, \<open>get_groq_client\<close> returns \<open>None\<close>;
  every driver called with \<open>None\<close> as client returns null, sends no request and leaves
  the conversation as it was.
\<close>

theorem missing_credential:
  "(environ ''GROQ_API_KEY'' = None \<longrightarrow> get_groq_client environ Groq = Returned None) \<and>
   chat_with_history None h q m = (Returned None, h, []) \<and>
   run_conversation_with_tools available None h q m = (Returned None, h, []) \<and>
   evaluate_response p json_loads None u a m = (Returned None, []) \<and>
   ask_llm_basic p None u m = (Returned None, [])"
  by (simp add: get_groq_client_def chat_with_history_def run_conversation_with_tools_def
      evaluate_response_def ask_llm_basic_def)

theorem missing_credential_witness:
  "get_groq_client Map.empty (\<lambda>k. Inr direct_client) = Returned None \<and>
   chat_with_history None example_history ''hi'' DEFAULT_MODEL
     = (Returned None, example_history, []) \<and>
   run_conversation_with_tools (AVAILABLE_FUNCTIONS flaky_clock) None example_history ''hi''
       DEFAULT_MODEL
     = (Returned None, example_history, []) \<and>
   evaluate_response ''judge'' (\<lambda>s. None :: unit option) None ''q'' ''a'' DEFAULT_MODEL
     = (Returned None, []) \<and>
   ask_llm_basic ''judge'' None ''q'' DEFAULT_MODEL = (Returned None, [])"
  using missing_credential [where environ = Map.empty and Groq = "\<lambda>k. Inr direct_client"
      and h = example_history and q = "''hi''" and m = DEFAULT_MODEL
      and available = "AVAILABLE_FUNCTIONS flaky_clock" and p = "''judge''"
      and json_loads = "\<lambda>s. None :: unit option" and u = "''q''" and a = "''a''"]
  by simp


lemma py_find_range: "- 1 \<le> py_find c s"
  by (induction s) (auto simp: Let_def)




















lemma run_error:
  assumes "filter_messages_for_api_fc (h @ [user_turn q]) = Inr ms"
    and "create (first_request ms m) = Inl e"
  shows "run_conversation_with_tools available (Some create) h q m
     = (if isinstance e APIError then Returned None else Raised rate_limit_name_error,
        h @ [user_turn q], [first_request ms m])"
  using assms
  by (simp add: run_conversation_with_tools_def tools_try_body_def
      except_api_handlers [OF function_calling_globals_def])

lemma evaluate_error:
  assumes "create (evaluation_request (evaluation_prompt_messages p u a) m) = Inl e"
  shows "evaluate_response p json_loads (Some create) u a m
     = (if isinstance e APIError then Returned None else Raised rate_limit_name_error,
        [evaluation_request (evaluation_prompt_messages p u a) m])"
  using assms
  by (simp add: evaluate_response_def except_api_handlers [OF evaluation_globals_def])

lemma chat_empty_choices:
  assumes "filter_messages_for_api_ch (h @ [user_turn q]) = Inr ms"
    and "create (chat_request ms m) = Inr cc" and "choices cc = []"
  shows "chat_with_history (Some create) h q m
     = (Raised rate_limit_name_error, h @ [user_turn q], [chat_request ms m])"
  using assms
  by (simp add: chat_with_history_def first_choice_def isinstance_def
      except_api_handlers [OF chat_history_globals_def])

lemma except_groq_globals: "except_clauses groq_globals api_handlers e = None"
  by (simp add: api_handlers_def lookup_name_def groq_globals_def builtins_def
      isinstance_Exception)

text \<open>
  C1 does not hold of the code. Each driver's handlers are \<open>except APIError\<close>,
  \<open>except RateLimitError\<close>, \<open>except Exception\<close>, and the driver modules import
  \<open>APIError\<close> only. An exception that is an \<open>APIError\<close> (a rate-limit error is one) is
  caught by the first clause and gives a null reply. Any other exception reaches the
  second clause, whose name is unbound: a \<open>NameError\<close> is raised there and leaves the
  driver, the user turn staying appended. Here the API call raises a \<open>RuntimeError\<close>,
  or answers with an empty list of choices (\<open>IndexError\<close>); with the imports of
  \<open>groq.py\<close> the same clauses catch the exception.
\<close>

theorem unexpected_exception_escapes:
  "chat_with_history (Some broken_client) example_history ''hi'' DEFAULT_MODEL
     = (Raised rate_limit_name_error, example_history @ [user_turn ''hi''],
        [chat_request (example_history @ [user_turn ''hi'']) DEFAULT_MODEL]) \<and>
   run_conversation_with_tools (AVAILABLE_FUNCTIONS flaky_clock) (Some broken_client)
       example_history ''hi'' DEFAULT_MODEL
     = (Raised rate_limit_name_error, example_history @ [user_turn ''hi''],
        [first_request (example_history @ [user_turn ''hi'']) DEFAULT_MODEL]) \<and>
   evaluate_response ''judge'' rejecting_parser (Some broken_client) ''q'' ''a'' EVALUATION_MODEL
     = (Raised rate_limit_name_error,
        [evaluation_request (evaluation_prompt_messages ''judge'' ''q'' ''a'') EVALUATION_MODEL]) \<and>
   chat_with_history (Some empty_client) example_history ''hi'' DEFAULT_MODEL
     = (Raised rate_limit_name_error, example_history @ [user_turn ''hi''],
        [chat_request (example_history @ [user_turn ''hi'']) DEFAULT_MODEL]) \<and>
   except_clauses groq_globals api_handlers (Exn RuntimeError ''boom'') = None"
proof -
  have b: "\<And>req. broken_client req = Inl (Exn RuntimeError ''boom'')"
    by (simp add: broken_client_def)
  have n: "\<not> isinstance (Exn RuntimeError ''boom'') APIError"
    by (simp add: isinstance_def)
  have e: "\<And>req. empty_client req = Inr \<lparr>choices = []\<rparr>"
    by (simp add: empty_client_def)
  have 1: "chat_with_history (Some broken_client) example_history ''hi'' DEFAULT_MODEL
     = (Raised rate_limit_name_error, example_history @ [user_turn ''hi''],
        [chat_request (example_history @ [user_turn ''hi'']) DEFAULT_MODEL])"
    using chat_error [where create = broken_client, OF filter_ch_example b] n by simp
  have 2: "run_conversation_with_tools (AVAILABLE_FUNCTIONS flaky_clock) (Some broken_client)
       example_history ''hi'' DEFAULT_MODEL
     = (Raised rate_limit_name_error, example_history @ [user_turn ''hi''],
        [first_request (example_history @ [user_turn ''hi'']) DEFAULT_MODEL])"
    using run_error [where create = broken_client, OF filter_fc_example b] n by simp
  have 3: "evaluate_response ''judge'' rejecting_parser (Some broken_client) ''q'' ''a''
       EVALUATION_MODEL
     = (Raised rate_limit_name_error,
        [evaluation_request (evaluation_prompt_messages ''judge'' ''q'' ''a'') EVALUATION_MODEL])"
    using evaluate_error [where create = broken_client, OF b] n by simp
  have 4: "chat_with_history (Some empty_client) example_history ''hi'' DEFAULT_MODEL
     = (Raised rate_limit_name_error, example_history @ [user_turn ''hi''],
        [chat_request (example_history @ [user_turn ''hi'']) DEFAULT_MODEL])"
    using chat_empty_choices [where create = empty_client, OF filter_ch_example e] by simp
  from 1 2 3 4 except_groq_globals show ?thesis by blast
qed

end
